theory Spec2Isabelle
  imports Main
begin

section \<open>Certificate renewal through ACME (internal/server/acme/acme.go)\<close>

text \<open>
  A shallow embedding of \<^verbatim>\<open>certificateNeedsUpdate\<close> and \<^verbatim>\<open>UpdateCertificate\<close>.

  The Go function talks to the outside world: it reads the clock, reads and removes
  files, loads the server certificate, runs the \<^verbatim>\<open>lego\<close> command, and calls the ACME
  client. Every such call is a field of the record \<open>env\<close> (what the call answers) and an
  \<open>event\<close> in the trace of the run (that the call was made, in program order). The
  certificate store is a map from paths to what \<^verbatim>\<open>os.ReadFile\<close> answers for the path;
  \<^verbatim>\<open>os.Remove\<close> takes a path out of it, or fails and leaves it.
  Every \<^verbatim>\<open>return\<close> of the source is a branch of the model: the result of a run is
  \<open>Inl\<close> of the error, \<open>Inr None\<close> for \<^verbatim>\<open>nil, nil\<close>, or \<open>Inr (Some r)\<close> for a certificate
  resource. Log lines (\<^verbatim>\<open>l.Debug\<close>, \<^verbatim>\<open>l.Warn\<close>, \<^verbatim>\<open>l.Info\<close>) are not modelled.

  The definitions come first: the data, the outside world, the function block by block
  with the lines of the source, an example world, and the predicates that read a trace.
  Then the lemmas on the loops, on the blocks and on whole runs; then the claims C1 to
  C10, each with its examples.
\<close>

subsection \<open>Data\<close>

type_synonym bytes = string

type_synonym path = string

text \<open>
  An error value handed back by a library or by the operating system. The source
  inspects one thing only: whether it is an \<^verbatim>\<open>*acme.ProblemDetails\<close>, and then its
  \<^verbatim>\<open>Type\<close> field.
\<close>

datatype cause = ProblemDetails string | OtherError string

text \<open>
  The errors \<^verbatim>\<open>UpdateCertificate\<close> returns: \<^verbatim>\<open>fmt.Errorf("msg: %w", err)\<close> is
  \<open>Wrapped msg err\<close>, \<^verbatim>\<open>fmt.Errorf("msg")\<close> is \<open>Plain msg\<close>. Indexing \<^verbatim>\<open>Certificate[0]\<close> of
  an empty chain panics in Go; that is \<open>IndexPanic\<close>.
\<close>

datatype error = Wrapped string cause | Plain string | IndexPanic

text \<open>
  \<^verbatim>\<open>x509.Certificate\<close>, with the two fields the source reads. A \<^verbatim>\<open>time.Time\<close> is the
  number of nanoseconds since the epoch, a \<^verbatim>\<open>time.Duration\<close> a number of nanoseconds;
  both are unbounded integers here (the expiry of a certificate is a date of at most
  four digits of year, far from any overflow of Go's time arithmetic).
\<close>

record x509_Certificate =
  DNSNames :: "string list"
  NotAfter :: int

text \<open>\<^verbatim>\<open>tls.Certificate\<close>: the chain (DER, leaf first) and the private key.\<close>

record tls_Certificate =
  tlsCertificate :: "bytes list"
  tlsPrivateKey :: bytes

text \<open>
  The \<^verbatim>\<open>CertInfo\<close> of shared/tls: \<^verbatim>\<open>KeyPair()\<close>, \<^verbatim>\<open>PublicKey()\<close> and \<^verbatim>\<open>PrivateKey()\<close>
  (the last two are the PEM encodings).
\<close>

record CertInfo =
  ciKeyPair :: tls_Certificate
  ciPublicKey :: bytes
  ciPrivateKey :: bytes

text \<open>\<^verbatim>\<open>certificate.Resource\<close> of lego, with the two fields the source sets.\<close>

record Resource =
  Certificate :: bytes
  PrivateKey :: bytes

type_synonym Registration = string

record user =
  Email :: string
  Key :: bytes

datatype KeyType = EC256 | EC384 | RSA2048 | RSA4096 | RSA8192

text \<open>
  \<^verbatim>\<open>lego.Config\<close>: the user, and the two fields the source assigns after
  \<^verbatim>\<open>lego.NewConfig\<close> (both are assigned on every path, so the defaults of
  \<^verbatim>\<open>NewConfig\<close> for them are never seen).
\<close>

record Config =
  User :: user
  CADirURL :: string
  CertificateKeyType :: KeyType

record ObtainRequest =
  Domains :: "string list"
  Bundle :: bool
  RequestPrivateKey :: bytes

text \<open>
  The part of \<^verbatim>\<open>state.State\<close> the source reads: \<^verbatim>\<open>s.OS.VarDir\<close> and the answer of
  \<^verbatim>\<open>s.GlobalConfig.ACMEDNS()\<close> (provider, environment, resolvers).
\<close>

record State =
  VarDir :: path
  ACMEDNS :: "string \<times> string list \<times> string list"

text \<open>
  The \<^verbatim>\<open>ChallengeProvider\<close> interface: what its \<^verbatim>\<open>RegisterWithSolver\<close> answers
  (\<open>None\<close> is a nil error).
\<close>

record ChallengeProvider =
  RegisterWithSolver :: "cause option"

subsection \<open>The outside world\<close>

text \<open>
  The store: a path that exists maps to what reading it gives, the content or the
  error (a file that exists can still be unreadable).
\<close>

type_synonym fs = "path \<rightharpoonup> (cause + bytes)"

definition PathExists :: "fs \<Rightarrow> path \<Rightarrow> bool" where
  "PathExists store p = (store p \<noteq> None)"

definition ReadFile :: "fs \<Rightarrow> path \<Rightarrow> cause + bytes" where
  "ReadFile store p =
     (case store p of
        None \<Rightarrow> Inl (OtherError ''no such file or directory'')
      | Some f \<Rightarrow> f)"

text \<open>
  What the calls to code outside this file answer. The clock is read at two places, at
  most once each in a run: in the check of the buffered certificate and in the check
  of the active one. \<open>osRemove e p\<close> is what the operating system answers when asked to
  remove the file \<open>p\<close> that exists: \<open>None\<close> when it removes the file, the error when it
  refuses (a directory that cannot be written, a read-only file system).
  \<open>Register e i\<close> and \<open>Obtain e i\<close> are the answers to the call of loop iteration \<open>i\<close>
  (counted from 0, as the loop variable is).
\<close>

record env =
  VarPath :: "string \<Rightarrow> path"
  NowBuffered :: int
  NowActive :: int
  X509KeyPair :: "bytes \<Rightarrow> bytes \<Rightarrow> cause + tls_Certificate"
  ParseCertificate :: "bytes \<Rightarrow> cause + x509_Certificate"
  osRemove :: "path \<Rightarrow> cause option"
  LoadCert :: "path \<Rightarrow> cause + CertInfo"
  MkdirTemp :: "cause + path"
  Environ :: "string list"
  RunCommandSplit :: "string list \<Rightarrow> string \<Rightarrow> string list \<Rightarrow> cause option"
  KeyPairAndCA :: "path \<Rightarrow> string \<Rightarrow> cause + CertInfo"
  GenerateKey :: "cause + bytes"
  NewClient :: "Config \<Rightarrow> cause option"
  Register :: "nat \<Rightarrow> cause + Registration"
  Obtain :: "nat \<Rightarrow> ObtainRequest \<Rightarrow> cause + Resource"

text \<open>
  \<^verbatim>\<open>os.Remove(p)\<close>: the store after the call, and the error. A file that the operating
  system refuses to remove stays in the store.
\<close>

definition Remove :: "env \<Rightarrow> fs \<Rightarrow> path \<Rightarrow> fs \<times> cause option" where
  "Remove e store p =
     (if PathExists store p then
        (case osRemove e p of
           None \<Rightarrow> (store(p := None), None)
         | Some err \<Rightarrow> (store, Some err))
      else (store, Some (OtherError ''no such file or directory'')))"

text \<open>
  The calls a run makes, in order. A registration or issuance attempt is recorded with
  its answer; \<open>EvSleep n\<close> is \<^verbatim>\<open>time.Sleep\<close> of \<open>n\<close> seconds.
\<close>

datatype event =
    EvReadFile path
  | EvRemove path
  | EvLoadCert path
  | EvMkdirTemp
  | EvRunCommandSplit "string list" string "string list"
  | EvKeyPairAndCA path string
  | EvRemoveAll path
  | EvGenerateKey
  | EvNewClient Config
  | EvRegisterWithSolver
  | EvRegister "cause + Registration"
  | EvObtain ObtainRequest "cause + Resource"
  | EvSleep nat

text \<open>A block of the function either returns from the function or falls through.\<close>

datatype 'a flow = Return "error + Resource option" | Continue 'a

record outcome =
  result :: "error + Resource option"
  trace :: "event list"
  files :: fs

subsection \<open>Constants\<close>

definition retries :: nat where
  "retries = 5"

definition ClusterCertFilename :: string where
  "ClusterCertFilename = ''cluster.crt.new''"

definition Hour :: int where
  "Hour = 3600 * 1000000000"

subsection \<open>certificateNeedsUpdate (lines 41-43)\<close>

text \<open>
  \<^verbatim>\<open>!slices.Contains(cert.DNSNames, domain) ||
     time.Now().After(cert.NotAfter.Add(-30*24*time.Hour))\<close>,
  with the reading of the clock as the first argument.
\<close>

definition certificateNeedsUpdate :: "int \<Rightarrow> string \<Rightarrow> x509_Certificate \<Rightarrow> bool" where
  "certificateNeedsUpdate now domain cert =
     (domain \<notin> set (DNSNames cert) \<or> now > NotAfter cert + (- 30 * 24 * Hour))"

subsection \<open>The retry loops (lines 192-206 and 226-240)\<close>

definition isRateLimited :: "cause \<Rightarrow> bool" where
  "isRateLimited err =
     (case err of
        ProblemDetails t \<Rightarrow> t = ''urn:ietf:params:acme:error:rateLimited''
      | OtherError _ \<Rightarrow> False)"

text \<open>
  \<open>registerLoop e i reg err\<close> is the loop from the test \<^verbatim>\<open>i < retries\<close> on, with the
  current values of the variables \<^verbatim>\<open>reg\<close> and \<^verbatim>\<open>err\<close>; it returns their values after the
  loop and the calls made.
\<close>

function registerLoop ::
  "env \<Rightarrow> nat \<Rightarrow> Registration option \<Rightarrow> cause option
     \<Rightarrow> (Registration option \<times> cause option) \<times> event list" where
  "registerLoop e i reg err =
     (if i < retries then
        (case Register e i of
           Inr r \<Rightarrow> ((Some r, None), [EvRegister (Inr r)])
         | Inl c \<Rightarrow>
             if isRateLimited c then ((None, Some c), [EvRegister (Inl c)])
             else (case registerLoop e (Suc i) None (Some c) of
                     (vars, evs) \<Rightarrow> (vars, EvRegister (Inl c) # EvSleep 10 # evs)))
      else ((reg, err), []))"
  by pat_completeness auto

termination
  by (relation "measure (\<lambda>(e, i, reg, err). retries - i)") auto

function obtainLoop ::
  "env \<Rightarrow> ObtainRequest \<Rightarrow> nat \<Rightarrow> Resource option \<Rightarrow> cause option
     \<Rightarrow> (Resource option \<times> cause option) \<times> event list" where
  "obtainLoop e request i certificates err =
     (if i < retries then
        (case Obtain e i request of
           Inr r \<Rightarrow> ((Some r, None), [EvObtain request (Inr r)])
         | Inl c \<Rightarrow>
             if isRateLimited c then ((None, Some c), [EvObtain request (Inl c)])
             else (case obtainLoop e request (Suc i) None (Some c) of
                     (vars, evs) \<Rightarrow> (vars, EvObtain request (Inl c) # EvSleep 10 # evs)))
      else ((certificates, err), []))"
  by pat_completeness auto

termination
  by (relation "measure (\<lambda>(e, request, i, certificates, err). retries - i)") auto

declare registerLoop.simps [simp del]

declare obtainLoop.simps [simp del]

subsection \<open>UpdateCertificate, block by block\<close>

text \<open>
  Lines 54-83: the certificate kept back for the cluster. The block returns the buffered
  certificate, returns an error, or falls through.
\<close>

definition bufferedCertificate ::
  "env \<Rightarrow> fs \<Rightarrow> bool \<Rightarrow> string \<Rightarrow> bool \<Rightarrow> unit flow \<times> event list" where
  "bufferedCertificate e store clustered domain force =
     (let clusterCertFilename = VarPath e ClusterCertFilename in
      if \<not> force \<and> clustered \<and> PathExists store clusterCertFilename then
        (let keyFilename = VarPath e ''cluster.key'' in
         case ReadFile store clusterCertFilename of
           Inl err \<Rightarrow>
             (Return (Inl (Wrapped ''Failed reading cluster certificate file'' err)),
              [EvReadFile clusterCertFilename])
         | Inr clusterCert \<Rightarrow>
            (case ReadFile store keyFilename of
               Inl err \<Rightarrow>
                 (Return (Inl (Wrapped ''Failed reading cluster key file'' err)),
                  [EvReadFile clusterCertFilename, EvReadFile keyFilename])
             | Inr key \<Rightarrow>
                (case X509KeyPair e clusterCert key of
                   Inl err \<Rightarrow>
                     (Return (Inl (Wrapped ''Failed to get keypair'' err)),
                      [EvReadFile clusterCertFilename, EvReadFile keyFilename])
                 | Inr keyPair \<Rightarrow>
                    (case tlsCertificate keyPair of
                       [] \<Rightarrow>
                         (Return (Inl IndexPanic),
                          [EvReadFile clusterCertFilename, EvReadFile keyFilename])
                     | der # _ \<Rightarrow>
                        (case ParseCertificate e der of
                           Inl err \<Rightarrow>
                             (Return (Inl (Wrapped ''Failed to parse certificate'' err)),
                              [EvReadFile clusterCertFilename, EvReadFile keyFilename])
                         | Inr cert \<Rightarrow>
                             if \<not> certificateNeedsUpdate (NowBuffered e) domain cert then
                               (Return (Inr (Some \<lparr>Certificate = clusterCert, PrivateKey = key\<rparr>)),
                                [EvReadFile clusterCertFilename, EvReadFile keyFilename])
                             else
                               (Continue (),
                                [EvReadFile clusterCertFilename, EvReadFile keyFilename]))))))
      else (Continue (), []))"

text \<open>
  Lines 85-87: when the buffer file exists, its removal is asked for. The source writes
  \<^verbatim>\<open>_ = os.Remove(clusterCertFilename)\<close>: the error of the removal is dropped, and the
  function goes on with the store as the removal left it.
\<close>

definition removeBuffer :: "env \<Rightarrow> fs \<Rightarrow> fs \<times> event list" where
  "removeBuffer e store =
     (let clusterCertFilename = VarPath e ClusterCertFilename in
      if PathExists store clusterCertFilename then
        (case Remove e store clusterCertFilename of
           (store', _) \<Rightarrow> (store', [EvRemove clusterCertFilename]))
      else (store, []))"

text \<open>
  Lines 89-103: the active certificate is loaded and parsed; without \<^verbatim>\<open>force\<close>, a
  certificate that needs no update ends the call with \<^verbatim>\<open>nil, nil\<close>.
\<close>

definition activeCertificate ::
  "env \<Rightarrow> State \<Rightarrow> string \<Rightarrow> bool \<Rightarrow> CertInfo flow \<times> event list" where
  "activeCertificate e s domain force =
     (case LoadCert e (VarDir s) of
        Inl err \<Rightarrow>
          (Return (Inl (Wrapped ''Failed to load certificate and key file'' err)),
           [EvLoadCert (VarDir s)])
      | Inr certInfo \<Rightarrow>
         (case tlsCertificate (ciKeyPair certInfo) of
            [] \<Rightarrow> (Return (Inl IndexPanic), [EvLoadCert (VarDir s)])
          | der # _ \<Rightarrow>
             (case ParseCertificate e der of
                Inl err \<Rightarrow>
                  (Return (Inl (Wrapped ''Failed to parse certificate'' err)),
                   [EvLoadCert (VarDir s)])
              | Inr cert \<Rightarrow>
                  if \<not> force \<and> \<not> certificateNeedsUpdate (NowActive e) domain cert then
                    (Return (Inr None), [EvLoadCert (VarDir s)])
                  else (Continue certInfo, [EvLoadCert (VarDir s)]))))"

text \<open>
  Lines 105-155: the DNS-01 challenge, solved by the \<^verbatim>\<open>lego\<close> command in a temporary
  directory. The deferred \<^verbatim>\<open>os.RemoveAll(tmpDir)\<close> runs at every return after the
  directory was made (its own error is only logged).
\<close>

definition legoArgs ::
  "string \<Rightarrow> string \<Rightarrow> string \<Rightarrow> path \<Rightarrow> string \<Rightarrow> string list \<Rightarrow> string list" where
  "legoArgs provider domain email tmpDir caURL resolvers =
     [''--accept-tos'',
      ''--dns'', provider,
      ''--domains'', domain,
      ''--email'', email,
      ''--path'', tmpDir,
      ''--server'', caURL]
     @ concat (map (\<lambda>resolver. [''--dns.resolvers'', resolver]) resolvers)
     @ [''run'']"

definition issueDNS01 ::
  "env \<Rightarrow> State \<Rightarrow> string \<Rightarrow> string \<Rightarrow> string
     \<Rightarrow> (error + Resource option) \<times> event list" where
  "issueDNS01 e s domain email caURL =
     (case ACMEDNS s of
        (provider, environment, resolvers) \<Rightarrow>
          if provider = '''' then
            (Inl (Plain ''DNS-01 challenge type requires acme.dns.provider configuration key to be set''),
             [])
          else
            (case MkdirTemp e of
               Inl err \<Rightarrow>
                 (Inl (Wrapped ''Failed to create temporary directory'' err), [EvMkdirTemp])
             | Inr tmpDir \<Rightarrow>
                (let args = legoArgs provider domain email tmpDir caURL resolvers;
                     environ = Environ e @ environment in
                 case RunCommandSplit e environ ''lego'' args of
                   Some err \<Rightarrow>
                     (Inl (Wrapped ''Failed to run lego command'' err),
                      [EvMkdirTemp, EvRunCommandSplit environ ''lego'' args, EvRemoveAll tmpDir])
                 | None \<Rightarrow>
                    (case KeyPairAndCA e (tmpDir @ ''/certificates'') domain of
                       Inl err \<Rightarrow>
                         (Inl (Wrapped ''Failed to load certificate and key file'' err),
                          [EvMkdirTemp, EvRunCommandSplit environ ''lego'' args,
                           EvKeyPairAndCA (tmpDir @ ''/certificates'') domain,
                           EvRemoveAll tmpDir])
                     | Inr certInfo \<Rightarrow>
                         (Inr (Some \<lparr>Certificate = ciPublicKey certInfo,
                                     PrivateKey = ciPrivateKey certInfo\<rparr>),
                          [EvMkdirTemp, EvRunCommandSplit environ ''lego'' args,
                           EvKeyPairAndCA (tmpDir @ ''/certificates'') domain,
                           EvRemoveAll tmpDir])))))"

text \<open>Lines 214-218: the request for one domain, with the server's own private key.\<close>

definition obtainRequest :: "string \<Rightarrow> CertInfo \<Rightarrow> ObtainRequest" where
  "obtainRequest domain certInfo =
     \<lparr>Domains = [domain], Bundle = True,
      RequestPrivateKey = tlsPrivateKey (ciKeyPair certInfo)\<rparr>"

text \<open>
  Lines 189-248: registration, then issuance, each in its retry loop. The assignment
  \<^verbatim>\<open>user.Registration = reg\<close> changes what the client knows of its user and nothing the
  function reads again; it is part of what \<open>Obtain\<close> stands for.
\<close>

definition registerAndObtain ::
  "env \<Rightarrow> string \<Rightarrow> CertInfo \<Rightarrow> (error + Resource option) \<times> event list" where
  "registerAndObtain e domain certInfo =
     (case registerLoop e 0 None None of
        ((reg, Some err), evs) \<Rightarrow> (Inl (Wrapped ''Failed to register user'' err), evs)
      | ((reg, None), evs) \<Rightarrow>
         (let request = obtainRequest domain certInfo in
          case obtainLoop e request 0 None None of
            ((certificates, Some err), evs') \<Rightarrow>
              (Inl (Wrapped ''Failed to obtain certificate'' err), evs @ evs')
          | ((certificates, None), evs') \<Rightarrow> (Inr certificates, evs @ evs')))"

text \<open>
  Lines 163-177: the configuration of the client, for a new account with its own key.
  An empty \<^verbatim>\<open>caURL\<close> stands for the directory of Let's Encrypt.
\<close>

definition clientConfig :: "string \<Rightarrow> bytes \<Rightarrow> string \<Rightarrow> Config" where
  "clientConfig email privateKey caURL =
     \<lparr>User = \<lparr>Email = email, Key = privateKey\<rparr>,
      CADirURL = (if caURL \<noteq> '''' then caURL
                  else ''https://acme-v02.api.letsencrypt.org/directory''),
      CertificateKeyType = RSA2048\<rparr>"

text \<open>Lines 157-248: the HTTP-01 challenge, solved in process.\<close>

definition issueHTTP01 ::
  "env \<Rightarrow> ChallengeProvider \<Rightarrow> string \<Rightarrow> string \<Rightarrow> string \<Rightarrow> CertInfo
     \<Rightarrow> (error + Resource option) \<times> event list" where
  "issueHTTP01 e provider domain email caURL certInfo =
     (case GenerateKey e of
        Inl err \<Rightarrow>
          (Inl (Wrapped ''Failed generating private key for user account'' err),
           [EvGenerateKey])
      | Inr privateKey \<Rightarrow>
         (let config = clientConfig email privateKey caURL in
          case NewClient e config of
            Some err \<Rightarrow>
              (Inl (Wrapped ''Failed to create new client'' err),
               [EvGenerateKey, EvNewClient config])
          | None \<Rightarrow>
             (case RegisterWithSolver provider of
                Some err \<Rightarrow>
                  (Inl (Wrapped ''Failed setting challenge provider'' err),
                   [EvGenerateKey, EvNewClient config, EvRegisterWithSolver])
              | None \<Rightarrow>
                 (case registerAndObtain e domain certInfo of
                    (r, evs) \<Rightarrow>
                      (r, [EvGenerateKey, EvNewClient config, EvRegisterWithSolver] @ evs)))))"

text \<open>Lines 46-249: the blocks in the order of the source.\<close>

definition UpdateCertificate ::
  "env \<Rightarrow> fs \<Rightarrow> State \<Rightarrow> string \<Rightarrow> ChallengeProvider \<Rightarrow> bool \<Rightarrow> string \<Rightarrow> string
     \<Rightarrow> string \<Rightarrow> bool \<Rightarrow> outcome" where
  "UpdateCertificate e store s challengeType provider clustered domain email caURL force =
     (case bufferedCertificate e store clustered domain force of
        (Return r, evs1) \<Rightarrow> \<lparr>result = r, trace = evs1, files = store\<rparr>
      | (Continue _, evs1) \<Rightarrow>
         (case removeBuffer e store of
            (store', evs2) \<Rightarrow>
              (case activeCertificate e s domain force of
                 (Return r, evs3) \<Rightarrow>
                   \<lparr>result = r, trace = evs1 @ evs2 @ evs3, files = store'\<rparr>
               | (Continue certInfo, evs3) \<Rightarrow>
                  (case (if challengeType = ''DNS-01''
                         then issueDNS01 e s domain email caURL
                         else issueHTTP01 e provider domain email caURL certInfo) of
                     (r, evs4) \<Rightarrow>
                       \<lparr>result = r, trace = evs1 @ evs2 @ evs3 @ evs4, files = store'\<rparr>))))"

subsection \<open>A small world to run the function in\<close>

text \<open>
  A certificate is written as a word here: \<open>fresh\<close> is a certificate for
  \<open>a.example.com\<close> that expires in 100 days, \<open>stale\<close> one that expires in 10 days;
  every other word does not parse. The key \<open>bad\<close> matches no certificate. The clock
  stands at 0.
\<close>

definition Day :: int where
  "Day = 24 * Hour"

definition exampleParse :: "bytes \<Rightarrow> cause + x509_Certificate" where
  "exampleParse der =
     (if der = ''fresh'' then Inr \<lparr>DNSNames = [''a.example.com''], NotAfter = 100 * Day\<rparr>
      else if der = ''stale'' then Inr \<lparr>DNSNames = [''a.example.com''], NotAfter = 10 * Day\<rparr>
      else Inl (OtherError ''x509: malformed certificate''))"

definition exampleKeyPair :: "bytes \<Rightarrow> bytes \<Rightarrow> cause + tls_Certificate" where
  "exampleKeyPair cert key =
     (if key = ''bad'' then Inl (OtherError ''tls: private key does not match public key'')
      else Inr \<lparr>tlsCertificate = [cert], tlsPrivateKey = key\<rparr>)"

definition exampleCertInfo :: "bytes \<Rightarrow> CertInfo" where
  "exampleCertInfo cert =
     \<lparr>ciKeyPair = \<lparr>tlsCertificate = [cert], tlsPrivateKey = ''server-key''\<rparr>,
      ciPublicKey = cert, ciPrivateKey = ''server-key''\<rparr>"

definition exampleIssued :: Resource where
  "exampleIssued = \<lparr>Certificate = ''issued'', PrivateKey = ''server-key''\<rparr>"

text \<open>The request the function makes for \<open>a.example.com\<close> in this world.\<close>

definition exampleRequest :: ObtainRequest where
  "exampleRequest = obtainRequest ''a.example.com'' (exampleCertInfo ''stale'')"

definition rateLimited :: cause where
  "rateLimited = ProblemDetails ''urn:ietf:params:acme:error:rateLimited''"

definition connectionReset :: cause where
  "connectionReset = OtherError ''connection reset by peer''"

text \<open>
  The active certificate is \<open>stale\<close>; the certificate authority answers every call at
  once.
\<close>

definition exampleEnv :: env where
  "exampleEnv =
     \<lparr>VarPath = (\<lambda>name. ''/var/lib/incus/'' @ name),
      NowBuffered = 0,
      NowActive = 0,
      X509KeyPair = exampleKeyPair,
      ParseCertificate = exampleParse,
      osRemove = (\<lambda>p. None),
      LoadCert = (\<lambda>dir. Inr (exampleCertInfo ''stale'')),
      MkdirTemp = Inr ''/tmp/lego1'',
      Environ = [''PATH=/usr/bin''],
      RunCommandSplit = (\<lambda>environ name args. None),
      KeyPairAndCA = (\<lambda>dir name. Inr (exampleCertInfo ''issued'')),
      GenerateKey = Inr ''account-key'',
      NewClient = (\<lambda>config. None),
      Register = (\<lambda>i. Inr ''account''),
      Obtain = (\<lambda>i request. Inr exampleIssued)\<rparr>"

text \<open>The same world with an active certificate that is \<open>fresh\<close>.\<close>

definition freshEnv :: env where
  "freshEnv = exampleEnv\<lparr>LoadCert := (\<lambda>dir. Inr (exampleCertInfo ''fresh''))\<rparr>"

text \<open>The same world when the active certificate cannot be loaded.\<close>

definition brokenEnv :: env where
  "brokenEnv =
     exampleEnv\<lparr>LoadCert := (\<lambda>dir. Inl (OtherError ''open server.crt: input/output error''))\<rparr>"

text \<open>The same world when no file can be removed.\<close>

definition readOnlyEnv :: env where
  "readOnlyEnv = exampleEnv\<lparr>osRemove := (\<lambda>p. Some (OtherError ''read-only file system''))\<rparr>"

text \<open>
  Worlds for the loops: the certificate authority refuses the first registration, or
  the first issuance, as rate limited; it fails four times and then answers, on
  registration or on issuance; it fails every time (with the number of the attempt in
  the message).
\<close>

definition registerLimitedEnv :: env where
  "registerLimitedEnv = exampleEnv\<lparr>Register := (\<lambda>i. Inl rateLimited)\<rparr>"

definition obtainLimitedEnv :: env where
  "obtainLimitedEnv = exampleEnv\<lparr>Obtain := (\<lambda>i request. Inl rateLimited)\<rparr>"

definition flakyEnv :: env where
  "flakyEnv =
     exampleEnv\<lparr>Register := (\<lambda>i. if i < 4 then Inl connectionReset else Inr ''account'')\<rparr>"

definition flakyObtainEnv :: env where
  "flakyObtainEnv =
     exampleEnv\<lparr>Obtain := (\<lambda>i request. if i < 4 then Inl connectionReset else Inr exampleIssued)\<rparr>"

definition downEnv :: env where
  "downEnv =
     exampleEnv\<lparr>Register := (\<lambda>i. Inl (OtherError (''timeout '' @ replicate i (CHR ''I'')))),
                 Obtain := (\<lambda>i request. Inl (OtherError (''timeout '' @ replicate i (CHR ''I''))))\<rparr>"

definition exampleState :: State where
  "exampleState =
     \<lparr>VarDir = ''/var/lib/incus'', ACMEDNS = (''dummy'', [''TOKEN=1''], [''1.1.1.1:53''])\<rparr>"

definition noProviderState :: State where
  "noProviderState = \<lparr>VarDir = ''/var/lib/incus'', ACMEDNS = ('''', [], [])\<rparr>"

definition exampleProvider :: ChallengeProvider where
  "exampleProvider = \<lparr>RegisterWithSolver = None\<rparr>"

text \<open>
  Stores: no buffer; a buffer with a fresh certificate; with a stale one; with a
  certificate file that cannot be read; with a key that does not match.
\<close>

definition noBuffer :: fs where
  "noBuffer = Map.empty"

definition freshBuffer :: fs where
  "freshBuffer =
     [''/var/lib/incus/cluster.crt.new'' \<mapsto> Inr ''fresh'',
      ''/var/lib/incus/cluster.key'' \<mapsto> Inr ''cluster-key'']"

definition staleBuffer :: fs where
  "staleBuffer =
     [''/var/lib/incus/cluster.crt.new'' \<mapsto> Inr ''stale'',
      ''/var/lib/incus/cluster.key'' \<mapsto> Inr ''cluster-key'']"

definition unreadableBuffer :: fs where
  "unreadableBuffer =
     [''/var/lib/incus/cluster.crt.new'' \<mapsto> Inl (OtherError ''permission denied''),
      ''/var/lib/incus/cluster.key'' \<mapsto> Inr ''cluster-key'']"

definition mismatchedBuffer :: fs where
  "mismatchedBuffer =
     [''/var/lib/incus/cluster.crt.new'' \<mapsto> Inr ''fresh'',
      ''/var/lib/incus/cluster.key'' \<mapsto> Inr ''bad'']"

subsection \<open>Reading a trace\<close>

text \<open>
  Kinds of events: an attempt of either loop that the certificate authority refused as
  rate limited, and an attempt that failed for another reason.
\<close>

fun isRegister :: "event \<Rightarrow> bool" where
  "isRegister (EvRegister _) = True"
| "isRegister _ = False"

fun isObtain :: "event \<Rightarrow> bool" where
  "isObtain (EvObtain _ _) = True"
| "isObtain _ = False"

fun isSleep :: "event \<Rightarrow> bool" where
  "isSleep (EvSleep _) = True"
| "isSleep _ = False"

fun rateLimitedAttempt :: "event \<Rightarrow> bool" where
  "rateLimitedAttempt (EvRegister (Inl c)) = isRateLimited c"
| "rateLimitedAttempt (EvObtain _ (Inl c)) = isRateLimited c"
| "rateLimitedAttempt _ = False"

fun otherFailedAttempt :: "event \<Rightarrow> bool" where
  "otherFailedAttempt (EvRegister (Inl c)) = (\<not> isRateLimited c)"
| "otherFailedAttempt (EvObtain _ (Inl c)) = (\<not> isRateLimited c)"
| "otherFailedAttempt _ = False"

text \<open>
  More kinds of events: an issuance attempt that succeeded, a registration attempt that
  succeeded, and the events that are no attempt and no sleep.
\<close>

fun isIssued :: "event \<Rightarrow> bool" where
  "isIssued (EvObtain _ (Inr _)) = True"
| "isIssued _ = False"

fun isRegistered :: "event \<Rightarrow> bool" where
  "isRegistered (EvRegister (Inr _)) = True"
| "isRegistered _ = False"

definition plainEvent :: "event \<Rightarrow> bool" where
  "plainEvent x = (\<not> isRegister x \<and> \<not> isObtain x \<and> \<not> isSleep x)"

text \<open>
  \<open>backedOff tr\<close>: in \<open>tr\<close>, every attempt that failed for a reason other than a rate
  limit is followed at once by a sleep of 10 seconds.
\<close>

definition backedOff :: "event list \<Rightarrow> bool" where
  "backedOff tr =
     (\<forall>before x after. tr = before @ x # after \<and> otherFailedAttempt x \<longrightarrow>
        (\<exists>after'. after = EvSleep 10 # after'))"

text \<open>
  \<open>failedTries answer i k\<close>: the attempts \<open>i\<close> to \<open>k - 1\<close> fail, none of them as rate
  limited.
\<close>

definition failedTries :: "(nat \<Rightarrow> cause + 'a) \<Rightarrow> nat \<Rightarrow> nat \<Rightarrow> bool" where
  "failedTries answer i k =
     list_all (\<lambda>j. case answer j of Inl c \<Rightarrow> \<not> isRateLimited c | Inr _ \<Rightarrow> False) [i..<k]"

text \<open>The events of the attempts \<open>i\<close> to \<open>k - 1\<close> when each fails and is retried.\<close>

definition retried :: "(cause + 'a \<Rightarrow> event) \<Rightarrow> (nat \<Rightarrow> cause + 'a) \<Rightarrow> nat \<Rightarrow> nat \<Rightarrow> event list" where
  "retried ev answer i k = concat (map (\<lambda>j. [ev (answer j), EvSleep 10]) [i..<k])"

section \<open>The retry loops\<close>

lemma failedTries_step:
  "failedTries answer i k \<Longrightarrow> i < k \<Longrightarrow>
     (\<exists>c. answer i = Inl c \<and> \<not> isRateLimited c) \<and> failedTries answer (Suc i) k"
  by (auto simp: failedTries_def upt_conv_Cons split: sum.splits)

lemma retried_Nil [simp]: "retried ev answer k k = []"
  by (simp add: retried_def)

lemma retried_Cons:
  "i < k \<Longrightarrow> retried ev answer i k = ev (answer i) # EvSleep 10 # retried ev answer (Suc i) k"
  by (simp add: retried_def upt_conv_Cons)

subsection \<open>Registration\<close>

lemma registerLoop_retry:
  "i < retries \<Longrightarrow> Register e i = Inl c \<Longrightarrow> \<not> isRateLimited c \<Longrightarrow>
   registerLoop e i reg err =
     (fst (registerLoop e (Suc i) None (Some c)),
      EvRegister (Inl c) # EvSleep 10 # snd (registerLoop e (Suc i) None (Some c)))"
  by (simp add: registerLoop.simps [of e i] split: prod.splits)

lemma registerLoop_done:
  "\<not> i < retries \<Longrightarrow> registerLoop e i reg err = ((reg, err), [])"
  by (simp add: registerLoop.simps [of e i])

lemma registerLoop_rateLimited_from:
  "i \<le> k \<Longrightarrow> k < retries \<Longrightarrow> failedTries (Register e) i k \<Longrightarrow>
   Register e k = Inl c \<Longrightarrow> isRateLimited c \<Longrightarrow>
   registerLoop e i reg err =
     ((None, Some c), retried EvRegister (Register e) i k @ [EvRegister (Inl c)])"
proof (induction "k - i" arbitrary: i reg err)
  case 0
  then have "i = k" by simp
  with 0 show ?case by (simp add: registerLoop.simps [of e k])
next
  case (Suc n)
  then have lt: "i < k" by simp
  with Suc.prems obtain c' where c': "Register e i = Inl c'" "\<not> isRateLimited c'"
    and rest: "failedTries (Register e) (Suc i) k"
    using failedTries_step by blast
  from Suc.hyps(2) lt have n: "n = k - Suc i" by simp
  have ih: "registerLoop e (Suc i) None (Some c') =
     ((None, Some c), retried EvRegister (Register e) (Suc i) k @ [EvRegister (Inl c)])"
    using Suc.hyps(1) [OF n _ Suc.prems(2) rest Suc.prems(4) Suc.prems(5)] lt by simp
  from lt Suc.prems(2) have "i < retries" by simp
  then show ?case
    using c' ih lt by (simp add: registerLoop_retry retried_Cons)
qed



subsection \<open>Issuance\<close>

lemma obtainLoop_retry:
  "i < retries \<Longrightarrow> Obtain e i request = Inl c \<Longrightarrow> \<not> isRateLimited c \<Longrightarrow>
   obtainLoop e request i certificates err =
     (fst (obtainLoop e request (Suc i) None (Some c)),
      EvObtain request (Inl c) # EvSleep 10 # snd (obtainLoop e request (Suc i) None (Some c)))"
  by (simp add: obtainLoop.simps [of e request i] split: prod.splits)

lemma obtainLoop_done:
  "\<not> i < retries \<Longrightarrow> obtainLoop e request i certificates err = ((certificates, err), [])"
  by (simp add: obtainLoop.simps [of e request i])

lemma obtainLoop_rateLimited_from:
  "i \<le> k \<Longrightarrow> k < retries \<Longrightarrow> failedTries (\<lambda>j. Obtain e j request) i k \<Longrightarrow>
   Obtain e k request = Inl c \<Longrightarrow> isRateLimited c \<Longrightarrow>
   obtainLoop e request i certificates err =
     ((None, Some c), retried (EvObtain request) (\<lambda>j. Obtain e j request) i k @ [EvObtain request (Inl c)])"
proof (induction "k - i" arbitrary: i certificates err)
  case 0
  then have "i = k" by simp
  with 0 show ?case by (simp add: obtainLoop.simps [of e request k])
next
  case (Suc n)
  then have lt: "i < k" by simp
  with Suc.prems obtain c' where c': "Obtain e i request = Inl c'" "\<not> isRateLimited c'"
    and rest: "failedTries (\<lambda>j. Obtain e j request) (Suc i) k"
    using failedTries_step by blast
  from Suc.hyps(2) lt have n: "n = k - Suc i" by simp
  have ih: "obtainLoop e request (Suc i) None (Some c') =
     ((None, Some c), retried (EvObtain request) (\<lambda>j. Obtain e j request) (Suc i) k @ [EvObtain request (Inl c)])"
    using Suc.hyps(1) [OF n _ Suc.prems(2) rest Suc.prems(4) Suc.prems(5)] lt by simp
  from lt Suc.prems(2) have "i < retries" by simp
  then show ?case
    using c' ih lt by (simp add: obtainLoop_retry retried_Cons)
qed



section \<open>Four and five attempts\<close>



section \<open>Lists of events\<close>

lemma filter_butlast_empty:
  "filter Q xs = [] \<Longrightarrow> filter Q (butlast xs) = []"
  by (auto simp: filter_empty_conv dest: in_set_butlastD)

text \<open>An event that occurs only as the last of a list has nothing after it.\<close>

lemma only_last:
  assumes "filter Q (butlast tr) = []" and "tr = before @ x # after" and "Q x"
  shows "after = [] \<and> last tr = x"
proof (cases after rule: rev_cases)
  case Nil
  with assms(2) show ?thesis by simp
next
  case (snoc ys y)
  with assms(2) have "butlast tr = before @ x # ys"
    by (simp add: butlast_append)
  with assms(1,3) show ?thesis by simp
qed

lemma sleep_follows_Cons:
  "(\<forall>before y after. x # xs = before @ y # after \<and> otherFailedAttempt y \<longrightarrow>
        (\<exists>after'. after = EvSleep 10 # after'))
   \<longleftrightarrow> (otherFailedAttempt x \<longrightarrow> (\<exists>xs'. xs = EvSleep 10 # xs'))
       \<and> (\<forall>before y after. xs = before @ y # after \<and> otherFailedAttempt y \<longrightarrow>
             (\<exists>after'. after = EvSleep 10 # after'))"
  (is "?L \<longleftrightarrow> ?H \<and> ?T")
proof
  assume l: ?L
  have ?H
  proof
    assume "otherFailedAttempt x"
    with l [rule_format, of "[]" x xs] show "\<exists>xs'. xs = EvSleep 10 # xs'" by simp
  qed
  moreover have ?T
  proof (intro allI impI)
    fix before y after
    assume "xs = before @ y # after \<and> otherFailedAttempt y"
    with l [rule_format, of "x # before" y after]
    show "\<exists>after'. after = EvSleep 10 # after'" by simp
  qed
  ultimately show "?H \<and> ?T" ..
next
  assume r: "?H \<and> ?T"
  show ?L
  proof (intro allI impI)
    fix before y after
    assume a: "x # xs = before @ y # after \<and> otherFailedAttempt y"
    show "\<exists>after'. after = EvSleep 10 # after'"
    proof (cases before)
      case Nil
      with a r show ?thesis by simp
    next
      case (Cons b bs)
      with a have "xs = bs @ y # after" by simp
      with a r show ?thesis by blast
    qed
  qed
qed

lemma backedOff_Nil [simp]: "backedOff []"
  by (simp add: backedOff_def)

lemma backedOff_Cons:
  "backedOff (x # xs) \<longleftrightarrow>
     (otherFailedAttempt x \<longrightarrow> (\<exists>xs'. xs = EvSleep 10 # xs')) \<and> backedOff xs"
  unfolding backedOff_def by (rule sleep_follows_Cons)



section \<open>What every run of a loop looks like\<close>

subsection \<open>Registration\<close>

lemma registerLoop_kinds:
  "set (snd (registerLoop e i reg err)) \<subseteq> range EvRegister \<union> {EvSleep 10}"
proof (induction e i reg err rule: registerLoop.induct)
  case (1 e i reg err)
  show ?case
  proof (cases "i < retries")
    case False
    then show ?thesis by (simp add: registerLoop_done)
  next
    case True
    show ?thesis
    proof (cases "Register e i")
      case (Inr r)
      with True show ?thesis by (simp add: registerLoop.simps [of e i])
    next
      case (Inl c)
      show ?thesis
      proof (cases "isRateLimited c")
        case True
        with Inl \<open>i < retries\<close> show ?thesis by (simp add: registerLoop.simps [of e i])
      next
        case False
        with 1 [OF True Inl False] True Inl show ?thesis
          by (auto simp: registerLoop_retry)
      qed
    qed
  qed
qed

lemma registerLoop_attempts:
  "length (filter isRegister (snd (registerLoop e i reg err))) \<le> retries - i"
proof (induction e i reg err rule: registerLoop.induct)
  case (1 e i reg err)
  show ?case
  proof (cases "i < retries")
    case False
    then show ?thesis by (simp add: registerLoop_done)
  next
    case True
    show ?thesis
    proof (cases "Register e i")
      case (Inr r)
      with True show ?thesis by (simp add: registerLoop.simps [of e i])
    next
      case (Inl c)
      show ?thesis
      proof (cases "isRateLimited c")
        case True
        with Inl \<open>i < retries\<close> show ?thesis by (simp add: registerLoop.simps [of e i])
      next
        case False
        with 1 [OF True Inl False] True Inl show ?thesis
          by (simp add: registerLoop_retry)
      qed
    qed
  qed
qed

lemma registerLoop_sleeps:
  "length (filter isSleep (snd (registerLoop e i reg err)))
     = length (filter otherFailedAttempt (snd (registerLoop e i reg err)))"
proof (induction e i reg err rule: registerLoop.induct)
  case (1 e i reg err)
  show ?case
  proof (cases "i < retries")
    case False
    then show ?thesis by (simp add: registerLoop_done)
  next
    case True
    show ?thesis
    proof (cases "Register e i")
      case (Inr r)
      with True show ?thesis by (simp add: registerLoop.simps [of e i])
    next
      case (Inl c)
      show ?thesis
      proof (cases "isRateLimited c")
        case True
        with Inl \<open>i < retries\<close> show ?thesis by (simp add: registerLoop.simps [of e i])
      next
        case False
        with 1 [OF True Inl False] True Inl show ?thesis
          by (simp add: registerLoop_retry)
      qed
    qed
  qed
qed

text \<open>
  A run of the loop has no rate limited attempt, or it ends with one, and then the
  loop leaves its error in \<open>err\<close>.
\<close>

lemma registerLoop_shape:
  "filter rateLimitedAttempt (snd (registerLoop e i reg err)) = []
   \<or> (\<exists>c evs0. snd (registerLoop e i reg err) = evs0 @ [EvRegister (Inl c)]
         \<and> filter rateLimitedAttempt evs0 = [] \<and> isRateLimited c
         \<and> fst (registerLoop e i reg err) = (None, Some c))"
proof (induction e i reg err rule: registerLoop.induct)
  case (1 e i reg err)
  show ?case
  proof (cases "i < retries")
    case False
    then show ?thesis by (simp add: registerLoop_done)
  next
    case True
    show ?thesis
    proof (cases "Register e i")
      case (Inr r)
      with True show ?thesis by (simp add: registerLoop.simps [of e i])
    next
      case (Inl c)
      show ?thesis
      proof (cases "isRateLimited c")
        case True
        with Inl \<open>i < retries\<close> show ?thesis by (simp add: registerLoop.simps [of e i])
      next
        case False
        from 1 [OF True Inl False] show ?thesis
        proof
          assume "filter rateLimitedAttempt (snd (registerLoop e (Suc i) None (Some c))) = []"
          with True Inl False show ?thesis by (simp add: registerLoop_retry)
        next
          assume "\<exists>c' evs0. snd (registerLoop e (Suc i) None (Some c)) = evs0 @ [EvRegister (Inl c')]
             \<and> filter rateLimitedAttempt evs0 = [] \<and> isRateLimited c'
             \<and> fst (registerLoop e (Suc i) None (Some c)) = (None, Some c')"
          then obtain c' evs0 where
            h: "snd (registerLoop e (Suc i) None (Some c)) = evs0 @ [EvRegister (Inl c')]"
               "filter rateLimitedAttempt evs0 = []" "isRateLimited c'"
               "fst (registerLoop e (Suc i) None (Some c)) = (None, Some c')"
            by blast
          have "snd (registerLoop e i reg err)
                  = (EvRegister (Inl c) # EvSleep 10 # evs0) @ [EvRegister (Inl c')]"
            using True Inl False h by (simp add: registerLoop_retry)
          moreover have "filter rateLimitedAttempt (EvRegister (Inl c) # EvSleep 10 # evs0) = []"
            using False h by simp
          moreover have "fst (registerLoop e i reg err) = (None, Some c')"
            using True Inl False h by (simp add: registerLoop_retry)
          ultimately show ?thesis using h(3) by blast
        qed
      qed
    qed
  qed
qed

subsection \<open>Issuance\<close>

lemma obtainLoop_kinds:
  "set (snd (obtainLoop e request i certificates err)) \<subseteq> range (EvObtain request) \<union> {EvSleep 10}"
proof (induction e request i certificates err rule: obtainLoop.induct)
  case (1 e request i certificates err)
  show ?case
  proof (cases "i < retries")
    case False
    then show ?thesis by (simp add: obtainLoop_done)
  next
    case True
    show ?thesis
    proof (cases "Obtain e i request")
      case (Inr r)
      with True show ?thesis by (simp add: obtainLoop.simps [of e request i])
    next
      case (Inl c)
      show ?thesis
      proof (cases "isRateLimited c")
        case True
        with Inl \<open>i < retries\<close> show ?thesis by (simp add: obtainLoop.simps [of e request i])
      next
        case False
        with 1 [OF True Inl False] True Inl show ?thesis
          by (auto simp: obtainLoop_retry)
      qed
    qed
  qed
qed

lemma obtainLoop_attempts:
  "length (filter isObtain (snd (obtainLoop e request i certificates err))) \<le> retries - i"
proof (induction e request i certificates err rule: obtainLoop.induct)
  case (1 e request i certificates err)
  show ?case
  proof (cases "i < retries")
    case False
    then show ?thesis by (simp add: obtainLoop_done)
  next
    case True
    show ?thesis
    proof (cases "Obtain e i request")
      case (Inr r)
      with True show ?thesis by (simp add: obtainLoop.simps [of e request i])
    next
      case (Inl c)
      show ?thesis
      proof (cases "isRateLimited c")
        case True
        with Inl \<open>i < retries\<close> show ?thesis by (simp add: obtainLoop.simps [of e request i])
      next
        case False
        with 1 [OF True Inl False] True Inl show ?thesis
          by (simp add: obtainLoop_retry)
      qed
    qed
  qed
qed

lemma obtainLoop_sleeps:
  "length (filter isSleep (snd (obtainLoop e request i certificates err)))
     = length (filter otherFailedAttempt (snd (obtainLoop e request i certificates err)))"
proof (induction e request i certificates err rule: obtainLoop.induct)
  case (1 e request i certificates err)
  show ?case
  proof (cases "i < retries")
    case False
    then show ?thesis by (simp add: obtainLoop_done)
  next
    case True
    show ?thesis
    proof (cases "Obtain e i request")
      case (Inr r)
      with True show ?thesis by (simp add: obtainLoop.simps [of e request i])
    next
      case (Inl c)
      show ?thesis
      proof (cases "isRateLimited c")
        case True
        with Inl \<open>i < retries\<close> show ?thesis by (simp add: obtainLoop.simps [of e request i])
      next
        case False
        with 1 [OF True Inl False] True Inl show ?thesis
          by (simp add: obtainLoop_retry)
      qed
    qed
  qed
qed

text \<open>
  A run of the loop has no rate limited attempt, or it ends with one, and then the
  loop leaves its error in \<open>err\<close>.
\<close>

lemma obtainLoop_shape:
  "filter rateLimitedAttempt (snd (obtainLoop e request i certificates err)) = []
   \<or> (\<exists>c evs0. snd (obtainLoop e request i certificates err) = evs0 @ [EvObtain request (Inl c)]
         \<and> filter rateLimitedAttempt evs0 = [] \<and> isRateLimited c
         \<and> fst (obtainLoop e request i certificates err) = (None, Some c))"
proof (induction e request i certificates err rule: obtainLoop.induct)
  case (1 e request i certificates err)
  show ?case
  proof (cases "i < retries")
    case False
    then show ?thesis by (simp add: obtainLoop_done)
  next
    case True
    show ?thesis
    proof (cases "Obtain e i request")
      case (Inr r)
      with True show ?thesis by (simp add: obtainLoop.simps [of e request i])
    next
      case (Inl c)
      show ?thesis
      proof (cases "isRateLimited c")
        case True
        with Inl \<open>i < retries\<close> show ?thesis by (simp add: obtainLoop.simps [of e request i])
      next
        case False
        from 1 [OF True Inl False] show ?thesis
        proof
          assume "filter rateLimitedAttempt (snd (obtainLoop e request (Suc i) None (Some c))) = []"
          with True Inl False show ?thesis by (simp add: obtainLoop_retry)
        next
          assume "\<exists>c' evs0. snd (obtainLoop e request (Suc i) None (Some c)) = evs0 @ [EvObtain request (Inl c')]
             \<and> filter rateLimitedAttempt evs0 = [] \<and> isRateLimited c'
             \<and> fst (obtainLoop e request (Suc i) None (Some c)) = (None, Some c')"
          then obtain c' evs0 where
            h: "snd (obtainLoop e request (Suc i) None (Some c)) = evs0 @ [EvObtain request (Inl c')]"
               "filter rateLimitedAttempt evs0 = []" "isRateLimited c'"
               "fst (obtainLoop e request (Suc i) None (Some c)) = (None, Some c')"
            by blast
          have "snd (obtainLoop e request i certificates err)
                  = (EvObtain request (Inl c) # EvSleep 10 # evs0) @ [EvObtain request (Inl c')]"
            using True Inl False h by (simp add: obtainLoop_retry)
          moreover have "filter rateLimitedAttempt (EvObtain request (Inl c) # EvSleep 10 # evs0) = []"
            using False h by simp
          moreover have "fst (obtainLoop e request i certificates err) = (None, Some c')"
            using True Inl False h by (simp add: obtainLoop_retry)
          ultimately show ?thesis using h(3) by blast
        qed
      qed
    qed
  qed
qed

section \<open>More on the runs of a loop\<close>

subsection \<open>Registration\<close>

lemma registerLoop_backedOff:
  "backedOff (snd (registerLoop e i reg err))"
proof (induction e i reg err rule: registerLoop.induct)
  case (1 e i reg err)
  show ?case
  proof (cases "i < retries")
    case False
    then show ?thesis by (simp add: registerLoop_done)
  next
    case True
    show ?thesis
    proof (cases "Register e i")
      case (Inr r)
      with True show ?thesis by (simp add: registerLoop.simps [of e i] backedOff_Cons)
    next
      case (Inl c)
      show ?thesis
      proof (cases "isRateLimited c")
        case True
        with Inl \<open>i < retries\<close> show ?thesis
          by (simp add: registerLoop.simps [of e i] backedOff_Cons)
      next
        case False
        with 1 [OF True Inl False] True Inl show ?thesis
          by (simp add: registerLoop_retry backedOff_Cons)
      qed
    qed
  qed
qed

lemma registerLoop_no_attempt:
  "filter isRegister (snd (registerLoop e i reg err)) = [] \<Longrightarrow>
   registerLoop e i reg err = ((reg, err), [])"
  by (cases "i < retries")
     (auto simp: registerLoop.simps [of e i] split: sum.splits if_splits prod.splits)

lemma registerLoop_last_failed:
  "filter isRegister (snd (registerLoop e i reg err)) \<noteq> [] \<Longrightarrow>
   last (filter isRegister (snd (registerLoop e i reg err))) = EvRegister (Inl c) \<Longrightarrow>
   snd (fst (registerLoop e i reg err)) = Some c"
proof (induction e i reg err rule: registerLoop.induct)
  case (1 e i reg err)
  show ?case
  proof (cases "i < retries")
    case False
    with 1(2) show ?thesis by (simp add: registerLoop_done)
  next
    case True
    show ?thesis
    proof (cases "Register e i")
      case (Inr r)
      with True 1(3) show ?thesis by (simp add: registerLoop.simps [of e i])
    next
      case (Inl c0)
      show ?thesis
      proof (cases "isRateLimited c0")
        case True
        with Inl \<open>i < retries\<close> 1(3) show ?thesis by (simp add: registerLoop.simps [of e i])
      next
        case False
        note eq = registerLoop_retry [OF True Inl False, of reg err]
        show ?thesis
        proof (cases "filter isRegister (snd (registerLoop e (Suc i) None (Some c0))) = []")
          case True
          from registerLoop_no_attempt [OF True] 1(3) eq show ?thesis by simp
        next
          case False
          with 1(3) eq
          have "last (filter isRegister (snd (registerLoop e (Suc i) None (Some c0))))
                  = EvRegister (Inl c)"
            by simp
          from 1(1) [OF \<open>i < retries\<close> Inl \<open>\<not> isRateLimited c0\<close> False this] eq
          show ?thesis by simp
        qed
      qed
    qed
  qed
qed

lemma registerLoop_last_succeeded:
  "filter isRegister (snd (registerLoop e i reg err)) \<noteq> [] \<Longrightarrow>
   last (filter isRegister (snd (registerLoop e i reg err))) = EvRegister (Inr r) \<Longrightarrow>
   fst (registerLoop e i reg err) = (Some r, None)"
proof (induction e i reg err rule: registerLoop.induct)
  case (1 e i reg err)
  show ?case
  proof (cases "i < retries")
    case False
    with 1(2) show ?thesis by (simp add: registerLoop_done)
  next
    case True
    show ?thesis
    proof (cases "Register e i")
      case (Inr r0)
      with True 1(3) show ?thesis by (simp add: registerLoop.simps [of e i])
    next
      case (Inl c0)
      show ?thesis
      proof (cases "isRateLimited c0")
        case True
        with Inl \<open>i < retries\<close> 1(3) show ?thesis by (simp add: registerLoop.simps [of e i])
      next
        case False
        note eq = registerLoop_retry [OF True Inl False, of reg err]
        show ?thesis
        proof (cases "filter isRegister (snd (registerLoop e (Suc i) None (Some c0))) = []")
          case True
          from registerLoop_no_attempt [OF True] 1(3) eq show ?thesis by simp
        next
          case False
          with 1(3) eq
          have "last (filter isRegister (snd (registerLoop e (Suc i) None (Some c0))))
                  = EvRegister (Inr r)"
            by simp
          from 1(1) [OF \<open>i < retries\<close> Inl \<open>\<not> isRateLimited c0\<close> False this] eq
          show ?thesis by simp
        qed
      qed
    qed
  qed
qed

lemma registerLoop_limited_last:
  "filter rateLimitedAttempt (butlast (snd (registerLoop e i reg err))) = []"
  using registerLoop_shape [of e i reg err] by (auto simp: filter_butlast_empty)

lemma registerLoop_quiet:
  "snd (fst (registerLoop e i reg err)) = None \<Longrightarrow>
   filter rateLimitedAttempt (snd (registerLoop e i reg err)) = []"
  using registerLoop_shape [of e i reg err] by auto

lemma registerLoop_registered_last:
  "filter isRegistered (butlast (snd (registerLoop e i reg err))) = []"
proof (induction e i reg err rule: registerLoop.induct)
  case (1 e i reg err)
  show ?case
  proof (cases "i < retries")
    case False
    then show ?thesis by (simp add: registerLoop_done)
  next
    case True
    show ?thesis
    proof (cases "Register e i")
      case (Inr r)
      with True show ?thesis by (simp add: registerLoop.simps [of e i])
    next
      case (Inl c)
      show ?thesis
      proof (cases "isRateLimited c")
        case True
        with Inl \<open>i < retries\<close> show ?thesis by (simp add: registerLoop.simps [of e i])
      next
        case False
        with 1 [OF True Inl False] True Inl show ?thesis
          by (simp add: registerLoop_retry)
      qed
    qed
  qed
qed

lemma registerLoop_others:
  "filter isObtain (snd (registerLoop e i reg err)) = []
   \<and> filter isIssued (snd (registerLoop e i reg err)) = []"
  using registerLoop_kinds [of e i reg err] by (auto simp: filter_empty_conv)

subsection \<open>Issuance\<close>

lemma obtainLoop_backedOff:
  "backedOff (snd (obtainLoop e request i certificates err))"
proof (induction e request i certificates err rule: obtainLoop.induct)
  case (1 e request i certificates err)
  show ?case
  proof (cases "i < retries")
    case False
    then show ?thesis by (simp add: obtainLoop_done)
  next
    case True
    show ?thesis
    proof (cases "Obtain e i request")
      case (Inr r)
      with True show ?thesis by (simp add: obtainLoop.simps [of e request i] backedOff_Cons)
    next
      case (Inl c)
      show ?thesis
      proof (cases "isRateLimited c")
        case True
        with Inl \<open>i < retries\<close> show ?thesis
          by (simp add: obtainLoop.simps [of e request i] backedOff_Cons)
      next
        case False
        with 1 [OF True Inl False] True Inl show ?thesis
          by (simp add: obtainLoop_retry backedOff_Cons)
      qed
    qed
  qed
qed

lemma obtainLoop_no_attempt:
  "filter isObtain (snd (obtainLoop e request i certificates err)) = [] \<Longrightarrow>
   obtainLoop e request i certificates err = ((certificates, err), [])"
  by (cases "i < retries")
     (auto simp: obtainLoop.simps [of e request i] split: sum.splits if_splits prod.splits)

lemma obtainLoop_last_failed:
  "filter isObtain (snd (obtainLoop e request i certificates err)) \<noteq> [] \<Longrightarrow>
   last (filter isObtain (snd (obtainLoop e request i certificates err))) = EvObtain request (Inl c) \<Longrightarrow>
   snd (fst (obtainLoop e request i certificates err)) = Some c"
proof (induction e request i certificates err rule: obtainLoop.induct)
  case (1 e request i certificates err)
  show ?case
  proof (cases "i < retries")
    case False
    with 1(2) show ?thesis by (simp add: obtainLoop_done)
  next
    case True
    show ?thesis
    proof (cases "Obtain e i request")
      case (Inr r)
      with True 1(3) show ?thesis by (simp add: obtainLoop.simps [of e request i])
    next
      case (Inl c0)
      show ?thesis
      proof (cases "isRateLimited c0")
        case True
        with Inl \<open>i < retries\<close> 1(3) show ?thesis by (simp add: obtainLoop.simps [of e request i])
      next
        case False
        note eq = obtainLoop_retry [OF True Inl False, of certificates err]
        show ?thesis
        proof (cases "filter isObtain (snd (obtainLoop e request (Suc i) None (Some c0))) = []")
          case True
          from obtainLoop_no_attempt [OF True] 1(3) eq show ?thesis by simp
        next
          case False
          with 1(3) eq
          have "last (filter isObtain (snd (obtainLoop e request (Suc i) None (Some c0))))
                  = EvObtain request (Inl c)"
            by simp
          from 1(1) [OF \<open>i < retries\<close> Inl \<open>\<not> isRateLimited c0\<close> False this] eq
          show ?thesis by simp
        qed
      qed
    qed
  qed
qed

lemma obtainLoop_last_succeeded:
  "filter isObtain (snd (obtainLoop e request i certificates err)) \<noteq> [] \<Longrightarrow>
   last (filter isObtain (snd (obtainLoop e request i certificates err))) = EvObtain request (Inr r) \<Longrightarrow>
   fst (obtainLoop e request i certificates err) = (Some r, None)"
proof (induction e request i certificates err rule: obtainLoop.induct)
  case (1 e request i certificates err)
  show ?case
  proof (cases "i < retries")
    case False
    with 1(2) show ?thesis by (simp add: obtainLoop_done)
  next
    case True
    show ?thesis
    proof (cases "Obtain e i request")
      case (Inr r0)
      with True 1(3) show ?thesis by (simp add: obtainLoop.simps [of e request i])
    next
      case (Inl c0)
      show ?thesis
      proof (cases "isRateLimited c0")
        case True
        with Inl \<open>i < retries\<close> 1(3) show ?thesis by (simp add: obtainLoop.simps [of e request i])
      next
        case False
        note eq = obtainLoop_retry [OF True Inl False, of certificates err]
        show ?thesis
        proof (cases "filter isObtain (snd (obtainLoop e request (Suc i) None (Some c0))) = []")
          case True
          from obtainLoop_no_attempt [OF True] 1(3) eq show ?thesis by simp
        next
          case False
          with 1(3) eq
          have "last (filter isObtain (snd (obtainLoop e request (Suc i) None (Some c0))))
                  = EvObtain request (Inr r)"
            by simp
          from 1(1) [OF \<open>i < retries\<close> Inl \<open>\<not> isRateLimited c0\<close> False this] eq
          show ?thesis by simp
        qed
      qed
    qed
  qed
qed

lemma obtainLoop_limited_last:
  "filter rateLimitedAttempt (butlast (snd (obtainLoop e request i certificates err))) = []"
  using obtainLoop_shape [of e request i certificates err] by (auto simp: filter_butlast_empty)

lemma obtainLoop_quiet:
  "snd (fst (obtainLoop e request i certificates err)) = None \<Longrightarrow>
   filter rateLimitedAttempt (snd (obtainLoop e request i certificates err)) = []"
  using obtainLoop_shape [of e request i certificates err] by auto

lemma obtainLoop_issued_last:
  "filter isIssued (butlast (snd (obtainLoop e request i certificates err))) = []"
proof (induction e request i certificates err rule: obtainLoop.induct)
  case (1 e request i certificates err)
  show ?case
  proof (cases "i < retries")
    case False
    then show ?thesis by (simp add: obtainLoop_done)
  next
    case True
    show ?thesis
    proof (cases "Obtain e i request")
      case (Inr r)
      with True show ?thesis by (simp add: obtainLoop.simps [of e request i])
    next
      case (Inl c)
      show ?thesis
      proof (cases "isRateLimited c")
        case True
        with Inl \<open>i < retries\<close> show ?thesis by (simp add: obtainLoop.simps [of e request i])
      next
        case False
        with 1 [OF True Inl False] True Inl show ?thesis
          by (simp add: obtainLoop_retry)
      qed
    qed
  qed
qed

lemma obtainLoop_others:
  "filter isRegister (snd (obtainLoop e request i certificates err)) = []
   \<and> filter isRegistered (snd (obtainLoop e request i certificates err)) = []"
  using obtainLoop_kinds [of e request i certificates err] by (auto simp: filter_empty_conv)

section \<open>Registration and issuance together\<close>

lemma registerAndObtain_cases [case_names registerFailed obtainFailed issued]:
  obtains
    (registerFailed) reg c R where
      "registerLoop e 0 None None = ((reg, Some c), R)"
      "registerAndObtain e domain certInfo = (Inl (Wrapped ''Failed to register user'' c), R)"
  | (obtainFailed) reg R certificates c ob where
      "registerLoop e 0 None None = ((reg, None), R)"
      "obtainLoop e (obtainRequest domain certInfo) 0 None None = ((certificates, Some c), ob)"
      "registerAndObtain e domain certInfo =
         (Inl (Wrapped ''Failed to obtain certificate'' c), R @ ob)"
  | (issued) reg R certificates ob where
      "registerLoop e 0 None None = ((reg, None), R)"
      "obtainLoop e (obtainRequest domain certInfo) 0 None None = ((certificates, None), ob)"
      "registerAndObtain e domain certInfo = (Inr certificates, R @ ob)"
proof -
  obtain reg err R where r: "registerLoop e 0 None None = ((reg, err), R)"
    by (cases "registerLoop e 0 None None") auto
  obtain certificates err' ob where
    ob: "obtainLoop e (obtainRequest domain certInfo) 0 None None = ((certificates, err'), ob)"
    by (cases "obtainLoop e (obtainRequest domain certInfo) 0 None None") auto
  show thesis
  proof (cases err)
    case (Some c)
    with r show ?thesis
      using registerFailed by (simp add: registerAndObtain_def)
  next
    case None
    show ?thesis
    proof (cases err')
      case (Some c)
      with r ob \<open>err = None\<close> show ?thesis
        using obtainFailed by (simp add: registerAndObtain_def)
    next
      case None
      with r ob \<open>err = None\<close> show ?thesis
        using issued by (simp add: registerAndObtain_def)
    qed
  qed
qed

text \<open>What is known of the events of a run of each loop.\<close>

lemma registerLoop_run:
  assumes "registerLoop e i reg0 err0 = ((reg, err), R)"
  shows "length (filter isRegister R) \<le> retries - i"
    and "length (filter isSleep R) = length (filter otherFailedAttempt R)"
    and "backedOff R"
    and "filter isObtain R = []"
    and "filter isIssued R = []"
    and "filter rateLimitedAttempt (butlast R) = []"
    and "err = None \<Longrightarrow> filter rateLimitedAttempt R = []"
    and "set R \<subseteq> range EvRegister \<union> {EvSleep 10}"
    and "filter isRegister R \<noteq> [] \<Longrightarrow> last (filter isRegister R) = EvRegister (Inl c)
           \<Longrightarrow> err = Some c"
  using assms registerLoop_attempts [of e i reg0 err0] registerLoop_sleeps [of e i reg0 err0]
    registerLoop_backedOff [of e i reg0 err0] registerLoop_others [of e i reg0 err0]
    registerLoop_limited_last [of e i reg0 err0] registerLoop_quiet [of e i reg0 err0]
    registerLoop_kinds [of e i reg0 err0] registerLoop_last_failed [of e i reg0 err0 c]
  by simp_all

lemma obtainLoop_run:
  assumes "obtainLoop e request i certificates0 err0 = ((certificates, err), ob)"
  shows "length (filter isObtain ob) \<le> retries - i"
    and "length (filter isSleep ob) = length (filter otherFailedAttempt ob)"
    and "backedOff ob"
    and "filter isRegister ob = []"
    and "filter isRegistered ob = []"
    and "filter rateLimitedAttempt (butlast ob) = []"
    and "filter isIssued (butlast ob) = []"
    and "set ob \<subseteq> range (EvObtain request) \<union> {EvSleep 10}"
    and "filter isObtain ob \<noteq> [] \<Longrightarrow> last (filter isObtain ob) = EvObtain request (Inl c)
           \<Longrightarrow> err = Some c"
    and "filter isObtain ob \<noteq> [] \<Longrightarrow> last (filter isObtain ob) = EvObtain request (Inr r)
           \<Longrightarrow> certificates = Some r \<and> err = None"
  using assms obtainLoop_attempts [of e request i certificates0 err0]
    obtainLoop_sleeps [of e request i certificates0 err0]
    obtainLoop_backedOff [of e request i certificates0 err0]
    obtainLoop_others [of e request i certificates0 err0]
    obtainLoop_limited_last [of e request i certificates0 err0]
    obtainLoop_issued_last [of e request i certificates0 err0]
    obtainLoop_kinds [of e request i certificates0 err0]
    obtainLoop_last_failed [of e request i certificates0 err0 c]
    obtainLoop_last_succeeded [of e request i certificates0 err0 r]
  by simp_all

text \<open>The request of the last issuance attempt of a run is the request of the loop.\<close>

lemma last_obtain_request:
  assumes "set ob \<subseteq> range (EvObtain request) \<union> {EvSleep 10}"
    and "filter isObtain ob \<noteq> []" and "last (filter isObtain ob) = EvObtain rq a"
  shows "rq = request"
proof -
  from assms(2) have "last (filter isObtain ob) \<in> set (filter isObtain ob)"
    by (rule last_in_set)
  with assms(1,3) show ?thesis by auto
qed



lemma registerAndObtain_limited_last:
  "filter rateLimitedAttempt (butlast (snd (registerAndObtain e domain certInfo))) = []"
proof (cases rule: registerAndObtain_cases [of e domain certInfo])
  case (registerFailed reg c R)
  with registerLoop_run(6) [OF registerFailed(1)] show ?thesis by simp
next
  case (obtainFailed reg R certificates c ob)
  with registerLoop_run(6,7) [OF obtainFailed(1)] obtainLoop_run(6) [OF obtainFailed(2)]
  show ?thesis by (simp add: butlast_append)
next
  case (issued reg R certificates ob)
  with registerLoop_run(6,7) [OF issued(1)] obtainLoop_run(6) [OF issued(2)]
  show ?thesis by (simp add: butlast_append)
qed


lemma registerAndObtain_register_failed:
  assumes "filter isRegister (snd (registerAndObtain e domain certInfo)) \<noteq> []"
    and "last (filter isRegister (snd (registerAndObtain e domain certInfo))) = EvRegister (Inl c)"
  shows "fst (registerAndObtain e domain certInfo) = Inl (Wrapped ''Failed to register user'' c)"
proof (cases rule: registerAndObtain_cases [of e domain certInfo])
  case (registerFailed reg c' R)
  with assms registerLoop_run(9) [OF registerFailed(1), of c] show ?thesis by simp
next
  case (obtainFailed reg R certificates c' ob)
  with assms registerLoop_run(9) [OF obtainFailed(1), of c] obtainLoop_run(4) [OF obtainFailed(2)]
  show ?thesis by simp
next
  case (issued reg R certificates ob)
  with assms registerLoop_run(9) [OF issued(1), of c] obtainLoop_run(4) [OF issued(2)]
  show ?thesis by simp
qed

lemma registerAndObtain_obtain_failed:
  assumes "filter isObtain (snd (registerAndObtain e domain certInfo)) \<noteq> []"
    and "last (filter isObtain (snd (registerAndObtain e domain certInfo))) = EvObtain rq (Inl c)"
  shows "fst (registerAndObtain e domain certInfo) = Inl (Wrapped ''Failed to obtain certificate'' c)"
proof (cases rule: registerAndObtain_cases [of e domain certInfo])
  case (registerFailed reg c' R)
  with assms registerLoop_run(4) [OF registerFailed(1)] show ?thesis by simp
next
  case (obtainFailed reg R certificates c' ob)
  with assms registerLoop_run(4) [OF obtainFailed(1)]
  have ne: "filter isObtain ob \<noteq> []" and l: "last (filter isObtain ob) = EvObtain rq (Inl c)"
    by simp_all
  from last_obtain_request [OF obtainLoop_run(8) [OF obtainFailed(2)] ne l]
  have "rq = obtainRequest domain certInfo" .
  with obtainLoop_run(9) [OF obtainFailed(2) ne, of c] l obtainFailed(3)
  show ?thesis by simp
next
  case (issued reg R certificates ob)
  with assms registerLoop_run(4) [OF issued(1)]
  have ne: "filter isObtain ob \<noteq> []" and l: "last (filter isObtain ob) = EvObtain rq (Inl c)"
    by simp_all
  from last_obtain_request [OF obtainLoop_run(8) [OF issued(2)] ne l]
  have "rq = obtainRequest domain certInfo" .
  with obtainLoop_run(9) [OF issued(2) ne, of c] l
  show ?thesis by simp
qed


section \<open>The blocks of UpdateCertificate\<close>

lemma bufferedCertificate_skipped:
  "force \<or> \<not> clustered \<or> \<not> PathExists store (VarPath e ClusterCertFilename) \<Longrightarrow>
   bufferedCertificate e store clustered domain force = (Continue (), [])"
  by (auto simp: bufferedCertificate_def)

lemma bufferedCertificate_events:
  "set (snd (bufferedCertificate e store clustered domain force))
     \<subseteq> {EvReadFile (VarPath e ClusterCertFilename), EvReadFile (VarPath e ''cluster.key'')}"
  by (simp add: bufferedCertificate_def Let_def split: sum.splits list.splits)

lemma activeCertificate_events:
  "snd (activeCertificate e s domain force) = [EvLoadCert (VarDir s)]"
  by (simp add: activeCertificate_def split: sum.splits list.splits)

lemma removeBuffer_eq:
  "removeBuffer e store =
     (if PathExists store (VarPath e ClusterCertFilename)
      then (fst (Remove e store (VarPath e ClusterCertFilename)),
            [EvRemove (VarPath e ClusterCertFilename)])
      else (store, []))"
  by (simp add: removeBuffer_def Let_def split: prod.splits)

lemma Remove_done:
  "PathExists store p \<Longrightarrow> osRemove e p = None \<Longrightarrow> fst (Remove e store p) = store(p := None)"
  by (simp add: Remove_def)

lemma Remove_refused:
  "osRemove e p \<noteq> None \<Longrightarrow> fst (Remove e store p) = store"
  by (auto simp: Remove_def)

lemma UpdateCertificate_cases [case_names buffer active dns01 http01]:
  obtains
    (buffer) r evs1 where
      "bufferedCertificate e store clustered domain force = (Return r, evs1)"
      "UpdateCertificate e store s challengeType provider clustered domain email caURL force =
         \<lparr>result = r, trace = evs1, files = store\<rparr>"
  | (active) evs1 r where
      "bufferedCertificate e store clustered domain force = (Continue (), evs1)"
      "activeCertificate e s domain force = (Return r, [EvLoadCert (VarDir s)])"
      "UpdateCertificate e store s challengeType provider clustered domain email caURL force =
         \<lparr>result = r,
          trace = evs1 @ snd (removeBuffer e store) @ [EvLoadCert (VarDir s)],
          files = fst (removeBuffer e store)\<rparr>"
  | (dns01) evs1 certInfo where
      "bufferedCertificate e store clustered domain force = (Continue (), evs1)"
      "activeCertificate e s domain force = (Continue certInfo, [EvLoadCert (VarDir s)])"
      "challengeType = ''DNS-01''"
      "UpdateCertificate e store s challengeType provider clustered domain email caURL force =
         \<lparr>result = fst (issueDNS01 e s domain email caURL),
          trace = evs1 @ snd (removeBuffer e store) @ [EvLoadCert (VarDir s)]
                  @ snd (issueDNS01 e s domain email caURL),
          files = fst (removeBuffer e store)\<rparr>"
  | (http01) evs1 certInfo where
      "bufferedCertificate e store clustered domain force = (Continue (), evs1)"
      "activeCertificate e s domain force = (Continue certInfo, [EvLoadCert (VarDir s)])"
      "challengeType \<noteq> ''DNS-01''"
      "UpdateCertificate e store s challengeType provider clustered domain email caURL force =
         \<lparr>result = fst (issueHTTP01 e provider domain email caURL certInfo),
          trace = evs1 @ snd (removeBuffer e store) @ [EvLoadCert (VarDir s)]
                  @ snd (issueHTTP01 e provider domain email caURL certInfo),
          files = fst (removeBuffer e store)\<rparr>"
proof (cases "bufferedCertificate e store clustered domain force")
  case (Pair fl evs1)
  show ?thesis
  proof (cases fl)
    case (Return r)
    with Pair show ?thesis
      using buffer by (simp add: UpdateCertificate_def)
  next
    case (Continue u)
    with Pair have b: "bufferedCertificate e store clustered domain force = (Continue (), evs1)"
      by simp
    obtain fl3 evs3 where a: "activeCertificate e s domain force = (fl3, evs3)"
      by (cases "activeCertificate e s domain force")
    with activeCertificate_events [of e s domain force]
    have evs3: "evs3 = [EvLoadCert (VarDir s)]" by simp
    show ?thesis
    proof (cases fl3)
      case (Return r)
      with a b evs3 show ?thesis
        using active by (simp add: UpdateCertificate_def split: prod.splits)
    next
      case (Continue certInfo)
      show ?thesis
      proof (cases "challengeType = ''DNS-01''")
        case True
        with a b evs3 Continue show ?thesis
          using dns01 [of evs1 certInfo]
          by (simp add: UpdateCertificate_def split: prod.splits)
      next
        case False
        with a b evs3 Continue show ?thesis
          using http01 [of evs1 certInfo]
          by (simp add: UpdateCertificate_def split: prod.splits)
      qed
    qed
  qed
qed

lemma passed_buffer_block:
  assumes "PathExists store (VarPath e ClusterCertFilename)"
    and "bufferedCertificate e store clustered domain force = (Continue (), evs1)"
  shows "(\<exists>after.
            trace (UpdateCertificate e store s challengeType provider clustered domain email caURL force)
              = evs1 @ EvRemove (VarPath e ClusterCertFilename) # EvLoadCert (VarDir s) # after)
         \<and> files (UpdateCertificate e store s challengeType provider clustered domain email caURL force)
             = fst (Remove e store (VarPath e ClusterCertFilename))"
proof -
  have r: "removeBuffer e store =
             (fst (Remove e store (VarPath e ClusterCertFilename)),
              [EvRemove (VarPath e ClusterCertFilename)])"
    using assms(1) by (simp add: removeBuffer_eq)
  show ?thesis
    by (cases rule: UpdateCertificate_cases
          [of e store clustered domain force s challengeType provider email caURL])
       (auto simp: assms(2) r)
qed

section \<open>Results of the blocks\<close>

lemma activeCertificate_Return:
  "activeCertificate e s domain force = (Return r, evs) \<Longrightarrow> force \<Longrightarrow> r \<noteq> Inr None"
  by (auto simp: activeCertificate_def split: sum.splits list.splits if_splits)

lemma issueDNS01_no_provider:
  "fst (ACMEDNS s) = '''' \<Longrightarrow>
   issueDNS01 e s domain email caURL =
     (Inl (Plain ''DNS-01 challenge type requires acme.dns.provider configuration key to be set''), [])"
  by (cases "ACMEDNS s") (simp add: issueDNS01_def)

lemma issueDNS01_outcome:
  "fst (issueDNS01 e s domain email caURL) \<noteq> Inr None
   \<and> (\<forall>p. EvReadFile p \<notin> set (snd (issueDNS01 e s domain email caURL)))"
  by (simp add: issueDNS01_def Let_def split: prod.splits sum.splits option.splits)

lemma registerLoop_first:
  "\<exists>evs. snd (registerLoop e 0 reg err) = EvRegister (Register e 0) # evs"
  by (simp add: registerLoop.simps [of e 0] retries_def split: sum.splits prod.splits)

lemma registerLoop_no_ReadFile:
  "EvReadFile p \<notin> set (snd (registerLoop e i reg err))"
  using registerLoop_kinds [of e i reg err] by auto

lemma obtainLoop_no_ReadFile:
  "EvReadFile p \<notin> set (snd (obtainLoop e request i certificates err))"
  using obtainLoop_kinds [of e request i certificates err] by auto

lemma obtainLoop_certificate:
  "fst (obtainLoop e request i certificates err) = (certificates', None) \<Longrightarrow>
     certificates' \<noteq> None \<or> (\<not> i < retries \<and> err = None)"
proof (induction e request i certificates err rule: obtainLoop.induct)
  case (1 e request i certificates err)
  show ?case
  proof (cases "i < retries")
    case False
    with 1(2) show ?thesis by (simp add: obtainLoop_done)
  next
    case True
    show ?thesis
    proof (cases "Obtain e i request")
      case (Inr r)
      with True 1(2) show ?thesis by (auto simp: obtainLoop.simps [of e request i])
    next
      case (Inl c)
      show ?thesis
      proof (cases "isRateLimited c")
        case True
        with Inl \<open>i < retries\<close> 1(2) show ?thesis by (simp add: obtainLoop.simps [of e request i])
      next
        case False
        from 1(2) True Inl False
        have "fst (obtainLoop e request (Suc i) None (Some c)) = (certificates', None)"
          by (simp add: obtainLoop_retry)
        from 1(1) [OF True Inl False this] show ?thesis by simp
      qed
    qed
  qed
qed

lemma registerAndObtain_outcome:
  "(\<exists>after. snd (registerAndObtain e domain certInfo) = EvRegister (Register e 0) # after)
   \<and> fst (registerAndObtain e domain certInfo) \<noteq> Inr None
   \<and> (\<forall>p. EvReadFile p \<notin> set (snd (registerAndObtain e domain certInfo)))"
proof -
  obtain evs where first: "snd (registerLoop e 0 None None) = EvRegister (Register e 0) # evs"
    using registerLoop_first by blast
  obtain reg err R where r: "registerLoop e 0 None None = ((reg, err), R)"
    by (cases "registerLoop e 0 None None") auto
  obtain certs err' ob where
    ob: "obtainLoop e (obtainRequest domain certInfo) 0 None None = ((certs, err'), ob)"
    by (cases "obtainLoop e (obtainRequest domain certInfo) 0 None None") auto
  have nr: "\<And>p. EvReadFile p \<notin> set R"
    using registerLoop_no_ReadFile [of _ e 0 None None] r by simp
  have no: "\<And>p. EvReadFile p \<notin> set ob"
    using obtainLoop_no_ReadFile [of _ e "obtainRequest domain certInfo" 0 None None] ob by simp
  have certs: "err' = None \<Longrightarrow> certs \<noteq> None"
    using obtainLoop_certificate [of e "obtainRequest domain certInfo" 0 None None certs] ob
    by (simp add: retries_def)
  from first r have R: "R = EvRegister (Register e 0) # evs" by simp
  show ?thesis
    using r ob nr no certs
    by (cases err; cases err') (auto simp: registerAndObtain_def R)
qed

lemma issueHTTP01_outcome:
  "fst (issueHTTP01 e provider domain email caURL certInfo) \<noteq> Inr None
   \<and> (\<forall>p. EvReadFile p \<notin> set (snd (issueHTTP01 e provider domain email caURL certInfo)))"
  using registerAndObtain_outcome [of e domain certInfo, THEN conjunct2]
  by (cases "registerAndObtain e domain certInfo")
     (simp add: issueHTTP01_def Let_def split: sum.splits option.splits)

text \<open>After a registration that succeeded comes the first issuance attempt.\<close>

lemma obtainLoop_first:
  "\<exists>evs. snd (obtainLoop e request 0 certificates err) = EvObtain request (Obtain e 0 request) # evs"
  by (simp add: obtainLoop.simps [of e request 0] retries_def split: sum.splits prod.splits)

lemma registered_then_obtain:
  assumes "snd (registerAndObtain e domain certInfo) = before @ EvRegister (Inr account) # after"
  shows "\<exists>after'. after = EvObtain (obtainRequest domain certInfo)
                             (Obtain e 0 (obtainRequest domain certInfo)) # after'"
proof -
  let ?x = "EvRegister (Inr account)"
  have split: "after = ob"
    if r: "registerLoop e 0 None None = ((reg, err), R)"
      and o: "filter isRegister ob = []"
      and eq: "R @ ob = before @ ?x # after"
    for reg err R ob
  proof -
    from eq obtain us where
      "(R = before @ us \<and> us @ ob = ?x # after) \<or> (R @ us = before \<and> ob = us @ ?x # after)"
      by (auto simp: append_eq_append_conv2)
    then show ?thesis
    proof
      assume "R @ us = before \<and> ob = us @ ?x # after"
      with o show ?thesis by simp
    next
      assume a: "R = before @ us \<and> us @ ob = ?x # after"
      show ?thesis
      proof (cases us)
        case Nil
        with a o show ?thesis by simp
      next
        case (Cons u us')
        with a have R: "R = before @ ?x # us'" and rest: "us' @ ob = after" by simp_all
        have "filter isRegistered (butlast R) = []"
          using registerLoop_registered_last [of e 0 None None] r by simp
        from only_last [OF this R] have "us' = []" by simp
        with rest show ?thesis by simp
      qed
    qed
  qed
  have failed: False
    if r: "registerLoop e 0 None None = ((reg, Some c), R)" and eq: "R = before @ ?x # after"
    for reg c R
  proof -
    have "filter isRegistered (butlast R) = []"
      using registerLoop_registered_last [of e 0 None None] r by simp
    from only_last [OF this eq] have "after = []" by simp
    with eq have "filter isRegister R \<noteq> []" and "last (filter isRegister R) = ?x" by simp_all
    with registerLoop_last_succeeded [of e 0 None None account] r show False by simp
  qed
  obtain evs where first:
    "snd (obtainLoop e (obtainRequest domain certInfo) 0 None None)
       = EvObtain (obtainRequest domain certInfo) (Obtain e 0 (obtainRequest domain certInfo)) # evs"
    using obtainLoop_first by blast
  show ?thesis
  proof (cases rule: registerAndObtain_cases [of e domain certInfo])
    case (registerFailed reg c R)
    with assms failed [OF registerFailed(1)] show ?thesis by simp
  next
    case (obtainFailed reg R certificates c ob)
    with assms have "R @ ob = before @ ?x # after" by simp
    from split [OF obtainFailed(1) obtainLoop_run(4) [OF obtainFailed(2)] this] first obtainFailed(2)
    show ?thesis by simp
  next
    case (issued reg R certificates ob)
    with assms have "R @ ob = before @ ?x # after" by simp
    from split [OF issued(1) obtainLoop_run(4) [OF issued(2)] this] first issued(2)
    show ?thesis by simp
  qed
qed

section \<open>The run of UpdateCertificate around the loops\<close>

lemma plainEvent_kinds:
  "plainEvent x \<Longrightarrow>
     \<not> rateLimitedAttempt x \<and> \<not> otherFailedAttempt x \<and> \<not> isIssued x"
  by (cases x rule: rateLimitedAttempt.cases) (auto simp: plainEvent_def)

lemma plain_filters:
  assumes "list_all plainEvent P"
  shows "filter isRegister P = []" and "filter isObtain P = []" and "filter isSleep P = []"
    and "filter rateLimitedAttempt P = []" and "filter otherFailedAttempt P = []"
    and "filter isIssued P = []"
  using assms plainEvent_kinds
  by (auto simp: filter_empty_conv list_all_iff plainEvent_def)

lemma bufferedCertificate_plain:
  "list_all plainEvent (snd (bufferedCertificate e store clustered domain force))"
  using bufferedCertificate_events [of e store clustered domain force]
  by (auto simp: list_all_iff plainEvent_def)

lemma removeBuffer_plain:
  "list_all plainEvent (snd (removeBuffer e store))"
  by (simp add: removeBuffer_eq plainEvent_def)

lemma issueDNS01_plain:
  "list_all plainEvent (snd (issueDNS01 e s domain email caURL))"
  by (simp add: issueDNS01_def Let_def plainEvent_def
        split: prod.splits sum.splits option.splits)

lemma issueHTTP01_cases [case_names prepare loops]:
  obtains
    (prepare) "list_all plainEvent (snd (issueHTTP01 e provider domain email caURL certInfo))"
  | (loops) P where
      "list_all plainEvent P"
      "issueHTTP01 e provider domain email caURL certInfo =
         (fst (registerAndObtain e domain certInfo),
          P @ snd (registerAndObtain e domain certInfo))"
proof (cases "GenerateKey e")
  case (Inl c)
  then show ?thesis using prepare by (simp add: issueHTTP01_def plainEvent_def)
next
  case (Inr privateKey)
  show ?thesis
  proof (cases "NewClient e (clientConfig email privateKey caURL)")
    case (Some c)
    with Inr show ?thesis using prepare by (simp add: issueHTTP01_def plainEvent_def)
  next
    case None
    show ?thesis
    proof (cases "RegisterWithSolver provider")
      case (Some c)
      with Inr \<open>NewClient e (clientConfig email privateKey caURL) = None\<close> show ?thesis
        using prepare by (simp add: issueHTTP01_def plainEvent_def)
    next
      case None
      with Inr \<open>NewClient e (clientConfig email privateKey caURL) = None\<close> show ?thesis
        using loops [of "[EvGenerateKey, EvNewClient (clientConfig email privateKey caURL),
                          EvRegisterWithSolver]"]
        by (simp add: issueHTTP01_def plainEvent_def split: prod.splits)
    qed
  qed
qed

lemma UpdateCertificate_run [case_names plainRun loopsRun]:
  obtains
    (plainRun)
      "list_all plainEvent
         (trace (UpdateCertificate e store s challengeType provider clustered domain email caURL force))"
  | (loopsRun) P certInfo where
      "list_all plainEvent P"
      "trace (UpdateCertificate e store s challengeType provider clustered domain email caURL force)
         = P @ snd (registerAndObtain e domain certInfo)"
      "result (UpdateCertificate e store s challengeType provider clustered domain email caURL force)
         = fst (registerAndObtain e domain certInfo)"
proof (cases rule: UpdateCertificate_cases
        [of e store clustered domain force s challengeType provider email caURL])
  case (buffer r evs1)
  with bufferedCertificate_plain [of e store clustered domain force] show ?thesis
    using plainRun by simp
next
  case (active evs1 r)
  with bufferedCertificate_plain [of e store clustered domain force]
    removeBuffer_plain [of e store]
  show ?thesis using plainRun by (simp add: plainEvent_def)
next
  case (dns01 evs1 certInfo)
  with bufferedCertificate_plain [of e store clustered domain force]
    removeBuffer_plain [of e store] issueDNS01_plain [of e s domain email caURL]
  show ?thesis using plainRun by (simp add: plainEvent_def)
next
  case (http01 evs1 certInfo)
  note b = bufferedCertificate_plain [of e store clustered domain force]
  note rm = removeBuffer_plain [of e store]
  show ?thesis
  proof (cases rule: issueHTTP01_cases [of e provider domain email caURL certInfo])
    case prepare
    with http01 b rm show ?thesis using plainRun by (simp add: plainEvent_def)
  next
    case (loops P)
    have "list_all plainEvent (evs1 @ snd (removeBuffer e store) @ [EvLoadCert (VarDir s)] @ P)"
      using http01(1) b rm loops(1) by (simp add: plainEvent_def)
    moreover have
      "trace (UpdateCertificate e store s challengeType provider clustered domain email caURL force)
         = (evs1 @ snd (removeBuffer e store) @ [EvLoadCert (VarDir s)] @ P)
           @ snd (registerAndObtain e domain certInfo)"
      using http01(4) loops(2) by simp
    moreover have
      "result (UpdateCertificate e store s challengeType provider clustered domain email caURL force)
         = fst (registerAndObtain e domain certInfo)"
      using http01(4) loops(2) by simp
    ultimately show ?thesis using loopsRun by blast
  qed
qed

section \<open>Every run of UpdateCertificate\<close>



lemma run_limited_last:
  "filter rateLimitedAttempt (butlast
     (trace (UpdateCertificate e store s challengeType provider clustered domain email caURL force)))
   = []"
proof (cases rule: UpdateCertificate_run
        [of e store s challengeType provider clustered domain email caURL force])
  case plainRun
  from plain_filters(4) [OF this] show ?thesis by (simp add: filter_butlast_empty)
next
  case (loopsRun P certInfo)
  with plain_filters(4) [OF loopsRun(1)] registerAndObtain_limited_last [of e domain certInfo]
  show ?thesis by (simp add: butlast_append filter_butlast_empty)
qed


lemma run_register_failed:
  assumes "filter isRegister
      (trace (UpdateCertificate e store s challengeType provider clustered domain email caURL force))
      \<noteq> []"
    and "last (filter isRegister
      (trace (UpdateCertificate e store s challengeType provider clustered domain email caURL force)))
      = EvRegister (Inl c)"
  shows "result (UpdateCertificate e store s challengeType provider clustered domain email caURL force)
           = Inl (Wrapped ''Failed to register user'' c)"
proof (cases rule: UpdateCertificate_run
        [of e store s challengeType provider clustered domain email caURL force])
  case plainRun
  from plain_filters(1) [OF this] assms(1) show ?thesis by simp
next
  case (loopsRun P certInfo)
  with plain_filters(1) [OF loopsRun(1)] assms
    registerAndObtain_register_failed [of e domain certInfo c]
  show ?thesis by simp
qed

lemma run_obtain_failed:
  assumes "filter isObtain
      (trace (UpdateCertificate e store s challengeType provider clustered domain email caURL force))
      \<noteq> []"
    and "last (filter isObtain
      (trace (UpdateCertificate e store s challengeType provider clustered domain email caURL force)))
      = EvObtain rq (Inl c)"
  shows "result (UpdateCertificate e store s challengeType provider clustered domain email caURL force)
           = Inl (Wrapped ''Failed to obtain certificate'' c)"
proof (cases rule: UpdateCertificate_run
        [of e store s challengeType provider clustered domain email caURL force])
  case plainRun
  from plain_filters(2) [OF this] assms(1) show ?thesis by simp
next
  case (loopsRun P certInfo)
  with plain_filters(2) [OF loopsRun(1)] assms
    registerAndObtain_obtain_failed [of e domain certInfo rq c]
  show ?thesis by simp
qed


text \<open>An attempt that can only be the last event of a run, and what the run returns then.\<close>

lemma run_limited_register:
  assumes "trace (UpdateCertificate e store s challengeType provider clustered domain email caURL force)
             = before @ EvRegister (Inl c) # after"
    and "isRateLimited c"
  shows "after = []
     \<and> result (UpdateCertificate e store s challengeType provider clustered domain email caURL force)
         = Inl (Wrapped ''Failed to register user'' c)"
proof -
  let ?tr = "trace (UpdateCertificate e store s challengeType provider clustered domain email caURL force)"
  from only_last [OF run_limited_last assms(1)] assms(2)
  have after: "after = []" by simp
  with assms(1) have "filter isRegister ?tr = filter isRegister before @ [EvRegister (Inl c)]"
    by simp
  then have "filter isRegister ?tr \<noteq> []" "last (filter isRegister ?tr) = EvRegister (Inl c)"
    by simp_all
  from run_register_failed [OF this] after show ?thesis by simp
qed

lemma run_limited_obtain:
  assumes "trace (UpdateCertificate e store s challengeType provider clustered domain email caURL force)
             = before @ EvObtain rq (Inl c) # after"
    and "isRateLimited c"
  shows "after = []
     \<and> result (UpdateCertificate e store s challengeType provider clustered domain email caURL force)
         = Inl (Wrapped ''Failed to obtain certificate'' c)"
proof -
  let ?tr = "trace (UpdateCertificate e store s challengeType provider clustered domain email caURL force)"
  from only_last [OF run_limited_last assms(1)] assms(2)
  have after: "after = []" by simp
  with assms(1) have "filter isObtain ?tr = filter isObtain before @ [EvObtain rq (Inl c)]"
    by simp
  then have "filter isObtain ?tr \<noteq> []" "last (filter isObtain ?tr) = EvObtain rq (Inl c)"
    by simp_all
  from run_obtain_failed [OF this] after show ?thesis by simp
qed


section \<open>The answer of the removal\<close>

text \<open>
  The error of \<^verbatim>\<open>os.Remove\<close> is dropped: what the operating system answers to the removal
  changes neither the calls of a run nor its result.
\<close>

lemma registerLoop_osRemove:
  "registerLoop (e\<lparr>osRemove := answer\<rparr>) i reg err = registerLoop e i reg err"
proof (induction e i reg err rule: registerLoop.induct)
  case (1 e i reg err)
  show ?case
  proof (cases "i < retries")
    case False
    then show ?thesis by (simp add: registerLoop_done)
  next
    case True
    show ?thesis
    proof (cases "Register e i")
      case (Inr r)
      with True show ?thesis
        by (simp add: registerLoop.simps [of e i] registerLoop.simps [of "e\<lparr>osRemove := answer\<rparr>" i])
    next
      case (Inl c)
      with True 1 [OF True Inl] show ?thesis
        by (simp add: registerLoop.simps [of e i] registerLoop.simps [of "e\<lparr>osRemove := answer\<rparr>" i])
    qed
  qed
qed

lemma obtainLoop_osRemove:
  "obtainLoop (e\<lparr>osRemove := answer\<rparr>) request i certificates err
     = obtainLoop e request i certificates err"
proof (induction e request i certificates err rule: obtainLoop.induct)
  case (1 e request i certificates err)
  show ?case
  proof (cases "i < retries")
    case False
    then show ?thesis by (simp add: obtainLoop_done)
  next
    case True
    show ?thesis
    proof (cases "Obtain e i request")
      case (Inr r)
      with True show ?thesis
        by (simp add: obtainLoop.simps [of e request i]
              obtainLoop.simps [of "e\<lparr>osRemove := answer\<rparr>" request i])
    next
      case (Inl c)
      with True 1 [OF True Inl] show ?thesis
        by (simp add: obtainLoop.simps [of e request i]
              obtainLoop.simps [of "e\<lparr>osRemove := answer\<rparr>" request i])
    qed
  qed
qed

lemma osRemove_ignored:
  "trace (UpdateCertificate (e\<lparr>osRemove := answer\<rparr>) store s challengeType provider
            clustered domain email caURL force)
     = trace (UpdateCertificate e store s challengeType provider clustered domain email caURL force)
   \<and> result (UpdateCertificate (e\<lparr>osRemove := answer\<rparr>) store s challengeType provider
              clustered domain email caURL force)
     = result (UpdateCertificate e store s challengeType provider clustered domain email caURL force)"
proof -
  have b: "bufferedCertificate (e\<lparr>osRemove := answer\<rparr>) store clustered domain force
             = bufferedCertificate e store clustered domain force"
    by (simp add: bufferedCertificate_def Let_def split: sum.splits list.splits)
  have rm: "snd (removeBuffer (e\<lparr>osRemove := answer\<rparr>) store) = snd (removeBuffer e store)"
    by (simp add: removeBuffer_eq)
  have a: "activeCertificate (e\<lparr>osRemove := answer\<rparr>) s domain force
             = activeCertificate e s domain force"
    by (simp add: activeCertificate_def split: sum.splits list.splits)
  have d: "issueDNS01 (e\<lparr>osRemove := answer\<rparr>) s domain email caURL
             = issueDNS01 e s domain email caURL"
    by (simp add: issueDNS01_def Let_def split: prod.splits sum.splits option.splits)
  have ro: "\<And>certInfo. registerAndObtain (e\<lparr>osRemove := answer\<rparr>) domain certInfo
                           = registerAndObtain e domain certInfo"
    unfolding registerAndObtain_def registerLoop_osRemove obtainLoop_osRemove by (rule refl)
  have h: "\<And>certInfo. issueHTTP01 (e\<lparr>osRemove := answer\<rparr>) provider domain email caURL certInfo
                          = issueHTTP01 e provider domain email caURL certInfo"
    by (simp add: issueHTTP01_def Let_def ro split: prod.splits sum.splits option.splits)
  show ?thesis
    using rm
    by (cases "removeBuffer e store"; cases "removeBuffer (e\<lparr>osRemove := answer\<rparr>) store")
       (simp add: UpdateCertificate_def b a d h split: prod.splits flow.splits)
qed

section \<open>Evaluation\<close>

text \<open>
  The definitions of the example world and of the blocks, for running the function on
  the examples.
\<close>

lemmas world_defs =
  exampleEnv_def freshEnv_def brokenEnv_def registerLimitedEnv_def obtainLimitedEnv_def
  readOnlyEnv_def flakyEnv_def flakyObtainEnv_def downEnv_def exampleState_def noProviderState_def exampleProvider_def
  noBuffer_def freshBuffer_def staleBuffer_def unreadableBuffer_def mismatchedBuffer_def
  exampleParse_def exampleKeyPair_def exampleCertInfo_def exampleIssued_def
  exampleRequest_def rateLimited_def connectionReset_def Day_def

lemmas block_defs =
  UpdateCertificate_def bufferedCertificate_def removeBuffer_def activeCertificate_def
  issueDNS01_def issueHTTP01_def registerAndObtain_def obtainRequest_def clientConfig_def
  legoArgs_def PathExists_def ReadFile_def Remove_def ClusterCertFilename_def
  certificateNeedsUpdate_def isRateLimited_def retries_def Hour_def Let_def

section \<open>The renewal decision\<close>

text \<open>
  C1. \<open>certificateNeedsUpdate\<close> answers true exactly when the domain is not among the
  DNS names of the certificate, or the clock is past the expiry less 30 days; the
  second condition is the same as: the clock plus 30 days is past the expiry. The
  answer is a function of the clock reading, the domain and the certificate.
\<close>

theorem certificateNeedsUpdate_iff:
  "(certificateNeedsUpdate now d c
      \<longleftrightarrow> d \<notin> set (DNSNames c) \<or> NotAfter c - 2592000000000000 < now)
   \<and> (certificateNeedsUpdate now d c
      \<longleftrightarrow> d \<notin> set (DNSNames c) \<or> NotAfter c < now + 2592000000000000)"
  by (auto simp: certificateNeedsUpdate_def Hour_def)

text \<open>
  The three cases at a certificate for \<open>a.example.com\<close>: another domain needs an
  update; the domain itself, 30 days or more before the expiry, needs none (the
  boundary is included); one nanosecond later it does.
\<close>

theorem certificateNeedsUpdate_iff_witness:
  "certificateNeedsUpdate 0 ''b.example.com''
     \<lparr>DNSNames = [''a.example.com''], NotAfter = 2592000000000000\<rparr>
   \<and> \<not> certificateNeedsUpdate 0 ''a.example.com''
     \<lparr>DNSNames = [''a.example.com''], NotAfter = 2592000000000000\<rparr>
   \<and> certificateNeedsUpdate 1 ''a.example.com''
     \<lparr>DNSNames = [''a.example.com''], NotAfter = 2592000000000000\<rparr>"
  using certificateNeedsUpdate_iff
          [of 0 "''b.example.com''" "\<lparr>DNSNames = [''a.example.com''], NotAfter = 2592000000000000\<rparr>"]
        certificateNeedsUpdate_iff
          [of 0 "''a.example.com''" "\<lparr>DNSNames = [''a.example.com''], NotAfter = 2592000000000000\<rparr>"]
        certificateNeedsUpdate_iff
          [of 1 "''a.example.com''" "\<lparr>DNSNames = [''a.example.com''], NotAfter = 2592000000000000\<rparr>"]
  by simp

section \<open>The certificate kept back for the cluster\<close>

text \<open>
  C2. In a cluster, without \<open>force\<close>, when the buffer file exists, the buffered
  certificate and its key can be read, form a key pair, and the certificate needs no
  update for the domain, \<open>UpdateCertificate\<close> returns that certificate and key. The run
  reads the two files and does nothing else: no registration, no issuance, no command;
  the store is unchanged.
\<close>

theorem buffered_certificate_returned:
  assumes "clustered" and "\<not> force"
    and "PathExists store (VarPath e ClusterCertFilename)"
    and "ReadFile store (VarPath e ClusterCertFilename) = Inr clusterCert"
    and "ReadFile store (VarPath e ''cluster.key'') = Inr key"
    and "X509KeyPair e clusterCert key = Inr keyPair"
    and "tlsCertificate keyPair = der # chain"
    and "ParseCertificate e der = Inr cert"
    and "\<not> certificateNeedsUpdate (NowBuffered e) domain cert"
  shows "UpdateCertificate e store s challengeType provider clustered domain email caURL force =
           \<lparr>result = Inr (Some \<lparr>Certificate = clusterCert, PrivateKey = key\<rparr>),
            trace = [EvReadFile (VarPath e ClusterCertFilename),
                     EvReadFile (VarPath e ''cluster.key'')],
            files = store\<rparr>"
  using assms by (simp add: UpdateCertificate_def bufferedCertificate_def)

text \<open>The buffer holds the certificate \<open>fresh\<close>: it is returned after two reads.\<close>

theorem buffered_certificate_returned_witness:
  "UpdateCertificate exampleEnv freshBuffer exampleState ''HTTP-01'' exampleProvider True
     ''a.example.com'' ''admin@example.com'' '''' False =
     \<lparr>result = Inr (Some \<lparr>Certificate = ''fresh'', PrivateKey = ''cluster-key''\<rparr>),
      trace = [EvReadFile ''/var/lib/incus/cluster.crt.new'',
               EvReadFile ''/var/lib/incus/cluster.key''],
      files = freshBuffer\<rparr>"
  using buffered_certificate_returned
    [where e = exampleEnv and store = freshBuffer and clustered = True and force = False
       and clusterCert = "''fresh''" and key = "''cluster-key''"
       and keyPair = "\<lparr>tlsCertificate = [''fresh''], tlsPrivateKey = ''cluster-key''\<rparr>"
       and der = "''fresh''" and chain = "[]"
       and cert = "\<lparr>DNSNames = [''a.example.com''], NotAfter = 100 * Day\<rparr>"
       and domain = "''a.example.com''" and s = exampleState
       and challengeType = "''HTTP-01''" and provider = exampleProvider
       and email = "''admin@example.com''" and caURL = "''''"]
  by (simp add: world_defs PathExists_def ReadFile_def ClusterCertFilename_def
        certificateNeedsUpdate_def Hour_def)

section \<open>Rate limits\<close>

text \<open>
  C3. A rate limit ends a loop at once. In the registration loop and in the issuance
  loop: when the first attempt is refused as rate limited, the loop makes that one
  attempt and nothing else, and leaves the error in \<open>err\<close>; more generally, when the
  attempts before attempt \<open>k\<close> fail for other reasons and attempt \<open>k\<close> is refused as
  rate limited, the loop's calls are those earlier attempts, each with its sleep, then
  attempt \<open>k\<close>, with no sleep and no attempt after it. In every run of
  \<open>UpdateCertificate\<close>, an attempt refused as rate limited is the last call of the
  run, and the run returns that error, wrapped as a registration or an issuance failure.
\<close>

theorem rate_limit_stops_retrying:
  "(Register e 0 = Inl c \<and> isRateLimited c \<longrightarrow>
      registerLoop e 0 None None = ((None, Some c), [EvRegister (Inl c)]))
   \<and> (Obtain e 0 request = Inl c \<and> isRateLimited c \<longrightarrow>
      obtainLoop e request 0 None None = ((None, Some c), [EvObtain request (Inl c)]))
   \<and> (k < retries \<and> failedTries (Register e) 0 k \<and> Register e k = Inl c \<and> isRateLimited c \<longrightarrow>
      registerLoop e 0 None None =
        ((None, Some c), retried EvRegister (Register e) 0 k @ [EvRegister (Inl c)]))
   \<and> (k < retries \<and> failedTries (\<lambda>j. Obtain e j request) 0 k \<and> Obtain e k request = Inl c
        \<and> isRateLimited c \<longrightarrow>
      obtainLoop e request 0 None None =
        ((None, Some c),
         retried (EvObtain request) (\<lambda>j. Obtain e j request) 0 k @ [EvObtain request (Inl c)]))
   \<and> (\<forall>before c' after.
        trace (UpdateCertificate e store s challengeType provider clustered domain email caURL force)
          = before @ EvRegister (Inl c') # after
        \<and> isRateLimited c' \<longrightarrow>
        after = []
        \<and> result (UpdateCertificate e store s challengeType provider clustered domain email caURL force)
            = Inl (Wrapped ''Failed to register user'' c'))
   \<and> (\<forall>before rq c' after.
        trace (UpdateCertificate e store s challengeType provider clustered domain email caURL force)
          = before @ EvObtain rq (Inl c') # after
        \<and> isRateLimited c' \<longrightarrow>
        after = []
        \<and> result (UpdateCertificate e store s challengeType provider clustered domain email caURL force)
            = Inl (Wrapped ''Failed to obtain certificate'' c'))"
proof (intro conjI allI impI)
  assume "Register e 0 = Inl c \<and> isRateLimited c"
  then show "registerLoop e 0 None None = ((None, Some c), [EvRegister (Inl c)])"
    using registerLoop_rateLimited_from [of 0 0 e c None None]
    by (simp add: retries_def failedTries_def)
next
  assume "Obtain e 0 request = Inl c \<and> isRateLimited c"
  then show "obtainLoop e request 0 None None = ((None, Some c), [EvObtain request (Inl c)])"
    using obtainLoop_rateLimited_from [of 0 0 e request c None None]
    by (simp add: retries_def failedTries_def)
next
  assume "k < retries \<and> failedTries (Register e) 0 k \<and> Register e k = Inl c \<and> isRateLimited c"
  then show "registerLoop e 0 None None =
      ((None, Some c), retried EvRegister (Register e) 0 k @ [EvRegister (Inl c)])"
    using registerLoop_rateLimited_from [of 0 k e c None None] by simp
next
  assume "k < retries \<and> failedTries (\<lambda>j. Obtain e j request) 0 k \<and> Obtain e k request = Inl c
        \<and> isRateLimited c"
  then show "obtainLoop e request 0 None None =
      ((None, Some c),
       retried (EvObtain request) (\<lambda>j. Obtain e j request) 0 k @ [EvObtain request (Inl c)])"
    using obtainLoop_rateLimited_from [of 0 k e request c None None] by simp
next
  fix before c' after
  assume "trace (UpdateCertificate e store s challengeType provider clustered domain email caURL force)
          = before @ EvRegister (Inl c') # after
        \<and> isRateLimited c'"
  then have a: "after = []
     \<and> result (UpdateCertificate e store s challengeType provider clustered domain email caURL force)
         = Inl (Wrapped ''Failed to register user'' c')"
    using run_limited_register by blast
  from a show "after = []" ..
  from a show "result (UpdateCertificate e store s challengeType provider clustered domain email caURL force)
         = Inl (Wrapped ''Failed to register user'' c')" ..
next
  fix before rq c' after
  assume "trace (UpdateCertificate e store s challengeType provider clustered domain email caURL force)
          = before @ EvObtain rq (Inl c') # after
        \<and> isRateLimited c'"
  then have a: "after = []
     \<and> result (UpdateCertificate e store s challengeType provider clustered domain email caURL force)
         = Inl (Wrapped ''Failed to obtain certificate'' c')"
    using run_limited_obtain by blast
  from a show "after = []" ..
  from a show "result (UpdateCertificate e store s challengeType provider clustered domain email caURL force)
         = Inl (Wrapped ''Failed to obtain certificate'' c')" ..
qed

text \<open>
  The certificate authority refuses the first registration (then the first issuance) as
  rate limited: one attempt, no sleep, the error is returned.
\<close>

theorem rate_limit_stops_retrying_witness:
  "isRateLimited rateLimited
   \<and> registerLoop registerLimitedEnv 0 None None
       = ((None, Some rateLimited), [EvRegister (Inl rateLimited)])
   \<and> UpdateCertificate registerLimitedEnv noBuffer exampleState ''HTTP-01'' exampleProvider False
       ''a.example.com'' ''admin@example.com'' '''' False
     = \<lparr>result = Inl (Wrapped ''Failed to register user'' rateLimited),
        trace = [EvLoadCert ''/var/lib/incus'',
                 EvGenerateKey,
                 EvNewClient (clientConfig ''admin@example.com'' ''account-key'' ''''),
                 EvRegisterWithSolver,
                 EvRegister (Inl rateLimited)],
        files = noBuffer\<rparr>
   \<and> UpdateCertificate obtainLimitedEnv noBuffer exampleState ''HTTP-01'' exampleProvider False
       ''a.example.com'' ''admin@example.com'' '''' False
     = \<lparr>result = Inl (Wrapped ''Failed to obtain certificate'' rateLimited),
        trace = [EvLoadCert ''/var/lib/incus'',
                 EvGenerateKey,
                 EvNewClient (clientConfig ''admin@example.com'' ''account-key'' ''''),
                 EvRegisterWithSolver,
                 EvRegister (Inr ''account''),
                 EvObtain exampleRequest (Inl rateLimited)],
        files = noBuffer\<rparr>"
  using rate_limit_stops_retrying
    [where e = registerLimitedEnv and c = rateLimited and k = 0
       and request = exampleRequest
       and store = noBuffer and clustered = False and force = False
       and domain = "''a.example.com''" and s = exampleState
       and challengeType = "''HTTP-01''" and provider = exampleProvider
       and email = "''admin@example.com''" and caURL = "''''"]
    rate_limit_stops_retrying
    [where e = obtainLimitedEnv and c = rateLimited and k = 0
       and request = exampleRequest
       and store = noBuffer and clustered = False and force = False
       and domain = "''a.example.com''" and s = exampleState
       and challengeType = "''HTTP-01''" and provider = exampleProvider
       and email = "''admin@example.com''" and caURL = "''''"]
  by (simp add: world_defs block_defs registerLoop.simps obtainLoop.simps)

section \<open>The retry budget\<close>



section \<open>A buffer that cannot be used\<close>

text \<open>
  C5, as the code has it. In a cluster, without \<open>force\<close>, when the buffer file exists
  and the certificate file cannot be read, or the key file cannot be read, or the two do
  not form a key pair, \<open>UpdateCertificate\<close> returns that failure, wrapped, as the error
  of the call. Nothing is issued, and the buffer file stays.
\<close>

theorem unusable_buffer_is_error:
  assumes "clustered" and "\<not> force"
    and "PathExists store (VarPath e ClusterCertFilename)"
  shows
    "(ReadFile store (VarPath e ClusterCertFilename) = Inl c \<longrightarrow>
        UpdateCertificate e store s challengeType provider clustered domain email caURL force =
          \<lparr>result = Inl (Wrapped ''Failed reading cluster certificate file'' c),
           trace = [EvReadFile (VarPath e ClusterCertFilename)],
           files = store\<rparr>)
     \<and> (ReadFile store (VarPath e ClusterCertFilename) = Inr clusterCert
          \<and> ReadFile store (VarPath e ''cluster.key'') = Inl c \<longrightarrow>
        UpdateCertificate e store s challengeType provider clustered domain email caURL force =
          \<lparr>result = Inl (Wrapped ''Failed reading cluster key file'' c),
           trace = [EvReadFile (VarPath e ClusterCertFilename),
                    EvReadFile (VarPath e ''cluster.key'')],
           files = store\<rparr>)
     \<and> (ReadFile store (VarPath e ClusterCertFilename) = Inr clusterCert
          \<and> ReadFile store (VarPath e ''cluster.key'') = Inr key
          \<and> X509KeyPair e clusterCert key = Inl c \<longrightarrow>
        UpdateCertificate e store s challengeType provider clustered domain email caURL force =
          \<lparr>result = Inl (Wrapped ''Failed to get keypair'' c),
           trace = [EvReadFile (VarPath e ClusterCertFilename),
                    EvReadFile (VarPath e ''cluster.key'')],
           files = store\<rparr>)"
  using assms by (simp add: UpdateCertificate_def bufferedCertificate_def)

text \<open>A buffer whose key does not match its certificate.\<close>

theorem unusable_buffer_is_error_witness:
  "UpdateCertificate exampleEnv mismatchedBuffer exampleState ''HTTP-01'' exampleProvider True
     ''a.example.com'' ''admin@example.com'' '''' False =
     \<lparr>result = Inl (Wrapped ''Failed to get keypair''
                      (OtherError ''tls: private key does not match public key'')),
      trace = [EvReadFile ''/var/lib/incus/cluster.crt.new'',
               EvReadFile ''/var/lib/incus/cluster.key''],
      files = mismatchedBuffer\<rparr>
   \<and> PathExists mismatchedBuffer ''/var/lib/incus/cluster.crt.new''"
  using unusable_buffer_is_error
    [where e = exampleEnv and store = mismatchedBuffer and clustered = True and force = False
       and clusterCert = "''fresh''" and key = "''bad''"
       and c = "OtherError ''tls: private key does not match public key''"
       and domain = "''a.example.com''" and s = exampleState
       and challengeType = "''HTTP-01''" and provider = exampleProvider
       and email = "''admin@example.com''" and caURL = "''''"]
  by (simp add: world_defs PathExists_def ReadFile_def ClusterCertFilename_def)

text \<open>
  C5 as stated fails: with a buffer certificate that cannot be read, the call ends with
  the read error after one read, and no issuance follows.
\<close>

theorem unreadable_buffer_counterexample:
  "result (UpdateCertificate exampleEnv unreadableBuffer exampleState ''HTTP-01'' exampleProvider
             True ''a.example.com'' ''admin@example.com'' '''' False)
     = Inl (Wrapped ''Failed reading cluster certificate file'' (OtherError ''permission denied''))
   \<and> trace (UpdateCertificate exampleEnv unreadableBuffer exampleState ''HTTP-01'' exampleProvider
             True ''a.example.com'' ''admin@example.com'' '''' False)
     = [EvReadFile ''/var/lib/incus/cluster.crt.new'']"
  by (simp add: world_defs block_defs)

section \<open>Forced renewal\<close>

text \<open>
  C6, as the code has it. With \<open>force\<close>, no file of the buffer is read and the result is
  never \<^verbatim>\<open>nil, nil\<close>. The run asks for the removal of the buffer file when it exists and
  loads the active certificate; what comes after (\<open>rest\<close>) and the result (\<open>r\<close>) are
  fixed by the first step that fails. When the active certificate cannot be loaded, has
  an empty chain or cannot be parsed, the run ends there with that error. With DNS-01,
  an empty provider or a temporary directory that cannot be made ends the run with that
  error; otherwise the \<^verbatim>\<open>lego\<close> command is run. With HTTP-01, an account key that cannot
  be generated, a client that cannot be created or a solver that cannot be registered
  ends the run with that error; otherwise the run goes on with the registration and the
  issuance: the first registration attempt is made, and a registration that succeeds is
  followed at once by the first issuance attempt.
\<close>

theorem force_bypasses_checks:
  assumes "force"
  shows
    "(\<forall>p. EvReadFile p \<notin> set (trace (UpdateCertificate e store s challengeType provider clustered domain email caURL force)))
     \<and> (\<exists>r rest.
          UpdateCertificate e store s challengeType provider clustered domain email caURL force =
            \<lparr>result = r,
             trace = snd (removeBuffer e store) @ EvLoadCert (VarDir s) # rest,
             files = fst (removeBuffer e store)\<rparr>
          \<and> r \<noteq> Inr None
          \<and> (\<forall>c. LoadCert e (VarDir s) = Inl c \<longrightarrow>
                r = Inl (Wrapped ''Failed to load certificate and key file'' c) \<and> rest = [])
          \<and> (\<forall>certInfo. LoadCert e (VarDir s) = Inr certInfo \<longrightarrow>
                (tlsCertificate (ciKeyPair certInfo) = [] \<longrightarrow> r = Inl IndexPanic \<and> rest = [])
                \<and> (\<forall>der chain. tlsCertificate (ciKeyPair certInfo) = der # chain \<longrightarrow>
                      (\<forall>c. ParseCertificate e der = Inl c \<longrightarrow>
                          r = Inl (Wrapped ''Failed to parse certificate'' c) \<and> rest = [])
                      \<and> (\<forall>cert. ParseCertificate e der = Inr cert \<longrightarrow>
                            (challengeType = ''DNS-01'' \<longrightarrow>
                               (\<forall>dnsProvider environment resolvers.
                                  ACMEDNS s = (dnsProvider, environment, resolvers) \<longrightarrow>
                                  (dnsProvider = '''' \<longrightarrow>
                                     r = Inl (Plain ''DNS-01 challenge type requires acme.dns.provider configuration key to be set'')
                                     \<and> rest = [])
                                  \<and> (dnsProvider \<noteq> '''' \<longrightarrow>
                                       (\<forall>c. MkdirTemp e = Inl c \<longrightarrow>
                                           r = Inl (Wrapped ''Failed to create temporary directory'' c)
                                           \<and> rest = [EvMkdirTemp])
                                       \<and> (\<forall>tmpDir. MkdirTemp e = Inr tmpDir \<longrightarrow>
                                             (\<exists>after.
                                                rest = EvMkdirTemp
                                                  # EvRunCommandSplit (Environ e @ environment) ''lego''
                                                      (legoArgs dnsProvider domain email tmpDir caURL resolvers)
                                                  # after)))))
                            \<and> (challengeType \<noteq> ''DNS-01'' \<longrightarrow>
                                 (\<forall>c. GenerateKey e = Inl c \<longrightarrow>
                                     r = Inl (Wrapped ''Failed generating private key for user account'' c)
                                     \<and> rest = [EvGenerateKey])
                                 \<and> (\<forall>privateKey. GenerateKey e = Inr privateKey \<longrightarrow>
                                       (\<forall>c. NewClient e (clientConfig email privateKey caURL) = Some c \<longrightarrow>
                                           r = Inl (Wrapped ''Failed to create new client'' c)
                                           \<and> rest = [EvGenerateKey,
                                                      EvNewClient (clientConfig email privateKey caURL)])
                                       \<and> (NewClient e (clientConfig email privateKey caURL) = None \<longrightarrow>
                                             (\<forall>c. RegisterWithSolver provider = Some c \<longrightarrow>
                                                 r = Inl (Wrapped ''Failed setting challenge provider'' c)
                                                 \<and> rest = [EvGenerateKey,
                                                            EvNewClient (clientConfig email privateKey caURL),
                                                            EvRegisterWithSolver])
                                             \<and> (RegisterWithSolver provider = None \<longrightarrow>
                                                   r = fst (registerAndObtain e domain certInfo)
                                                   \<and> rest = [EvGenerateKey,
                                                              EvNewClient (clientConfig email privateKey caURL),
                                                              EvRegisterWithSolver]
                                                             @ snd (registerAndObtain e domain certInfo)
                                                   \<and> (\<exists>after.
                                                         snd (registerAndObtain e domain certInfo)
                                                           = EvRegister (Register e 0) # after)
                                                   \<and> (\<forall>before account after.
                                                         snd (registerAndObtain e domain certInfo)
                                                           = before @ EvRegister (Inr account) # after \<longrightarrow>
                                                         (\<exists>after'.
                                                            after = EvObtain (obtainRequest domain certInfo)
                                                                      (Obtain e 0 (obtainRequest domain certInfo))
                                                                    # after'))))))))))"
proof -
  let ?out = "UpdateCertificate e store s challengeType provider clustered domain email caURL force"
  have b: "bufferedCertificate e store clustered domain force = (Continue (), [])"
    using assms by (simp add: bufferedCertificate_skipped)
  have rm: "\<And>p. EvReadFile p \<notin> set (snd (removeBuffer e store))"
    by (simp add: removeBuffer_eq)
  define issue where
    "issue certInfo =
       (if challengeType = ''DNS-01'' then issueDNS01 e s domain email caURL
        else issueHTTP01 e provider domain email caURL certInfo)" for certInfo
  define r where
    "r = (case fst (activeCertificate e s domain force) of
            Return x \<Rightarrow> x | Continue certInfo \<Rightarrow> fst (issue certInfo))"
  define rest where
    "rest = (case fst (activeCertificate e s domain force) of
               Return x \<Rightarrow> [] | Continue certInfo \<Rightarrow> snd (issue certInfo))"
  have out: "?out = \<lparr>result = r,
                      trace = snd (removeBuffer e store) @ EvLoadCert (VarDir s) # rest,
                      files = fst (removeBuffer e store)\<rparr>"
    using activeCertificate_events [of e s domain force]
    by (auto simp: UpdateCertificate_def b r_def rest_def issue_def
          split: prod.splits flow.splits)
  have issueNoRead: "\<And>p certInfo. EvReadFile p \<notin> set (snd (issue certInfo))"
    using issueDNS01_outcome [of e s domain email caURL]
      issueHTTP01_outcome [of e provider domain email caURL]
    by (simp add: issue_def)
  have issueNotNil: "\<And>certInfo. fst (issue certInfo) \<noteq> Inr None"
    using issueDNS01_outcome [of e s domain email caURL]
      issueHTTP01_outcome [of e provider domain email caURL]
    by (simp add: issue_def)
  have noRead: "\<forall>p. EvReadFile p \<notin> set (trace ?out)"
    using rm issueNoRead by (simp add: out rest_def split: flow.splits)
  have notNil: "r \<noteq> Inr None"
  proof (cases "fst (activeCertificate e s domain force)")
    case (Return x)
    then have "activeCertificate e s domain force
                 = (Return x, snd (activeCertificate e s domain force))"
      by (simp add: prod_eq_iff)
    from activeCertificate_Return [OF this assms] Return show ?thesis by (simp add: r_def)
  next
    case (Continue certInfo)
    with issueNotNil show ?thesis by (simp add: r_def)
  qed
  have load: "r = Inl (Wrapped ''Failed to load certificate and key file'' c) \<and> rest = []"
    if "LoadCert e (VarDir s) = Inl c" for c
    using that by (simp add: r_def rest_def activeCertificate_def)
  have empty: "r = Inl IndexPanic \<and> rest = []"
    if "LoadCert e (VarDir s) = Inr certInfo" and "tlsCertificate (ciKeyPair certInfo) = []"
    for certInfo
    using that by (simp add: r_def rest_def activeCertificate_def)
  have parse: "r = Inl (Wrapped ''Failed to parse certificate'' c) \<and> rest = []"
    if "LoadCert e (VarDir s) = Inr certInfo"
      and "tlsCertificate (ciKeyPair certInfo) = der # chain"
      and "ParseCertificate e der = Inl c"
    for certInfo der chain c
    using that by (simp add: r_def rest_def activeCertificate_def)
  have go: "r = fst (issue certInfo) \<and> rest = snd (issue certInfo)"
    if "LoadCert e (VarDir s) = Inr certInfo"
      and "tlsCertificate (ciKeyPair certInfo) = der # chain"
      and "ParseCertificate e der = Inr cert"
    for certInfo der chain cert
    using that assms by (simp add: r_def rest_def activeCertificate_def)
  have dns:
    "(dnsProvider = '''' \<longrightarrow>
        fst (issue certInfo)
          = Inl (Plain ''DNS-01 challenge type requires acme.dns.provider configuration key to be set'')
        \<and> snd (issue certInfo) = [])
     \<and> (dnsProvider \<noteq> '''' \<longrightarrow>
          (\<forall>c. MkdirTemp e = Inl c \<longrightarrow>
              fst (issue certInfo) = Inl (Wrapped ''Failed to create temporary directory'' c)
              \<and> snd (issue certInfo) = [EvMkdirTemp])
          \<and> (\<forall>tmpDir. MkdirTemp e = Inr tmpDir \<longrightarrow>
                (\<exists>after.
                   snd (issue certInfo) = EvMkdirTemp
                     # EvRunCommandSplit (Environ e @ environment) ''lego''
                         (legoArgs dnsProvider domain email tmpDir caURL resolvers)
                     # after)))"
    if "challengeType = ''DNS-01''" and "ACMEDNS s = (dnsProvider, environment, resolvers)"
    for certInfo dnsProvider environment resolvers
    using that
    by (simp add: issue_def issueDNS01_def Let_def split: sum.splits option.splits)
  have http:
    "(\<forall>c. GenerateKey e = Inl c \<longrightarrow>
         fst (issue certInfo) = Inl (Wrapped ''Failed generating private key for user account'' c)
         \<and> snd (issue certInfo) = [EvGenerateKey])
     \<and> (\<forall>privateKey. GenerateKey e = Inr privateKey \<longrightarrow>
           (\<forall>c. NewClient e (clientConfig email privateKey caURL) = Some c \<longrightarrow>
               fst (issue certInfo) = Inl (Wrapped ''Failed to create new client'' c)
               \<and> snd (issue certInfo)
                   = [EvGenerateKey, EvNewClient (clientConfig email privateKey caURL)])
           \<and> (NewClient e (clientConfig email privateKey caURL) = None \<longrightarrow>
                 (\<forall>c. RegisterWithSolver provider = Some c \<longrightarrow>
                     fst (issue certInfo) = Inl (Wrapped ''Failed setting challenge provider'' c)
                     \<and> snd (issue certInfo)
                         = [EvGenerateKey, EvNewClient (clientConfig email privateKey caURL),
                            EvRegisterWithSolver])
                 \<and> (RegisterWithSolver provider = None \<longrightarrow>
                       fst (issue certInfo) = fst (registerAndObtain e domain certInfo)
                       \<and> snd (issue certInfo)
                           = [EvGenerateKey, EvNewClient (clientConfig email privateKey caURL),
                              EvRegisterWithSolver]
                             @ snd (registerAndObtain e domain certInfo))))"
    if "challengeType \<noteq> ''DNS-01''" for certInfo
    using that
    by (simp add: issue_def issueHTTP01_def Let_def split: prod.splits)
  have first: "\<And>certInfo. \<exists>after. snd (registerAndObtain e domain certInfo)
                                     = EvRegister (Register e 0) # after"
    using registerAndObtain_outcome by blast
  have next_obtain:
    "\<And>certInfo before account after.
       snd (registerAndObtain e domain certInfo) = before @ EvRegister (Inr account) # after \<Longrightarrow>
       \<exists>after'. after = EvObtain (obtainRequest domain certInfo)
                          (Obtain e 0 (obtainRequest domain certInfo)) # after'"
    by (rule registered_then_obtain)
  show ?thesis
    apply (rule conjI)
     apply (rule noRead)
    apply (rule exI [of _ r])
    apply (rule exI [of _ rest])
    apply (intro conjI)
       apply (rule out)
      apply (rule notNil)
     using load apply blast
    using empty parse go dns http first next_obtain apply (intro allI impI conjI)
    apply simp_all
    done
qed

text \<open>
  With \<open>force\<close>, a fresh buffer and a fresh active certificate do not stop the issuance,
  through HTTP-01 or through DNS-01; with DNS-01 and no provider, the forced run ends with
  the configuration error.
\<close>

theorem force_bypasses_checks_witness:
  "result (UpdateCertificate freshEnv freshBuffer exampleState ''HTTP-01'' exampleProvider True
             ''a.example.com'' ''admin@example.com'' '''' True)
     = Inr (Some exampleIssued)
   \<and> trace (UpdateCertificate freshEnv freshBuffer exampleState ''HTTP-01'' exampleProvider True
             ''a.example.com'' ''admin@example.com'' '''' True)
     = [EvRemove ''/var/lib/incus/cluster.crt.new'',
        EvLoadCert ''/var/lib/incus'',
        EvGenerateKey,
        EvNewClient (clientConfig ''admin@example.com'' ''account-key'' ''''),
        EvRegisterWithSolver,
        EvRegister (Inr ''account''),
        EvObtain (obtainRequest ''a.example.com'' (exampleCertInfo ''fresh'')) (Inr exampleIssued)]
   \<and> result (UpdateCertificate freshEnv freshBuffer exampleState ''DNS-01'' exampleProvider True
             ''a.example.com'' ''admin@example.com'' '''' True)
     = Inr (Some \<lparr>Certificate = ''issued'', PrivateKey = ''server-key''\<rparr>)
   \<and> trace (UpdateCertificate freshEnv freshBuffer exampleState ''DNS-01'' exampleProvider True
             ''a.example.com'' ''admin@example.com'' '''' True)
     = [EvRemove ''/var/lib/incus/cluster.crt.new'',
        EvLoadCert ''/var/lib/incus'',
        EvMkdirTemp,
        EvRunCommandSplit [''PATH=/usr/bin'', ''TOKEN=1''] ''lego''
          [''--accept-tos'', ''--dns'', ''dummy'', ''--domains'', ''a.example.com'',
           ''--email'', ''admin@example.com'', ''--path'', ''/tmp/lego1'',
           ''--server'', '''', ''--dns.resolvers'', ''1.1.1.1:53'', ''run''],
        EvKeyPairAndCA ''/tmp/lego1/certificates'' ''a.example.com'',
        EvRemoveAll ''/tmp/lego1'']
   \<and> result (UpdateCertificate freshEnv freshBuffer noProviderState ''DNS-01'' exampleProvider True
             ''a.example.com'' ''admin@example.com'' '''' True)
     = Inl (Plain ''DNS-01 challenge type requires acme.dns.provider configuration key to be set'')
   \<and> trace (UpdateCertificate freshEnv freshBuffer noProviderState ''DNS-01'' exampleProvider True
             ''a.example.com'' ''admin@example.com'' '''' True)
     = [EvRemove ''/var/lib/incus/cluster.crt.new'', EvLoadCert ''/var/lib/incus'']"
proof -
  note http =
    force_bypasses_checks
      [where e = freshEnv and store = freshBuffer and clustered = True and force = True
         and domain = "''a.example.com''" and s = exampleState
         and challengeType = "''HTTP-01''" and provider = exampleProvider
         and email = "''admin@example.com''" and caURL = "''''"]
  note dns =
    force_bypasses_checks
      [where e = freshEnv and store = freshBuffer and clustered = True and force = True
         and domain = "''a.example.com''" and s = exampleState
         and challengeType = "''DNS-01''" and provider = exampleProvider
         and email = "''admin@example.com''" and caURL = "''''"]
  note noProvider =
    force_bypasses_checks
      [where e = freshEnv and store = freshBuffer and clustered = True and force = True
         and domain = "''a.example.com''" and s = noProviderState
         and challengeType = "''DNS-01''" and provider = exampleProvider
         and email = "''admin@example.com''" and caURL = "''''"]
  have h: "result (UpdateCertificate freshEnv freshBuffer exampleState ''HTTP-01'' exampleProvider True
             ''a.example.com'' ''admin@example.com'' '''' True)
     = Inr (Some exampleIssued)
   \<and> trace (UpdateCertificate freshEnv freshBuffer exampleState ''HTTP-01'' exampleProvider True
             ''a.example.com'' ''admin@example.com'' '''' True)
     = [EvRemove ''/var/lib/incus/cluster.crt.new'',
        EvLoadCert ''/var/lib/incus'',
        EvGenerateKey,
        EvNewClient (clientConfig ''admin@example.com'' ''account-key'' ''''),
        EvRegisterWithSolver,
        EvRegister (Inr ''account''),
        EvObtain (obtainRequest ''a.example.com'' (exampleCertInfo ''fresh'')) (Inr exampleIssued)]"
    using http by (simp add: world_defs block_defs registerLoop.simps obtainLoop.simps)
  have d: "result (UpdateCertificate freshEnv freshBuffer exampleState ''DNS-01'' exampleProvider True
             ''a.example.com'' ''admin@example.com'' '''' True)
     = Inr (Some \<lparr>Certificate = ''issued'', PrivateKey = ''server-key''\<rparr>)
   \<and> trace (UpdateCertificate freshEnv freshBuffer exampleState ''DNS-01'' exampleProvider True
             ''a.example.com'' ''admin@example.com'' '''' True)
     = [EvRemove ''/var/lib/incus/cluster.crt.new'',
        EvLoadCert ''/var/lib/incus'',
        EvMkdirTemp,
        EvRunCommandSplit [''PATH=/usr/bin'', ''TOKEN=1''] ''lego''
          [''--accept-tos'', ''--dns'', ''dummy'', ''--domains'', ''a.example.com'',
           ''--email'', ''admin@example.com'', ''--path'', ''/tmp/lego1'',
           ''--server'', '''', ''--dns.resolvers'', ''1.1.1.1:53'', ''run''],
        EvKeyPairAndCA ''/tmp/lego1/certificates'' ''a.example.com'',
        EvRemoveAll ''/tmp/lego1'']"
    using dns by (simp add: world_defs block_defs)
  have n: "result (UpdateCertificate freshEnv freshBuffer noProviderState ''DNS-01'' exampleProvider True
             ''a.example.com'' ''admin@example.com'' '''' True)
     = Inl (Plain ''DNS-01 challenge type requires acme.dns.provider configuration key to be set'')
   \<and> trace (UpdateCertificate freshEnv freshBuffer noProviderState ''DNS-01'' exampleProvider True
             ''a.example.com'' ''admin@example.com'' '''' True)
     = [EvRemove ''/var/lib/incus/cluster.crt.new'', EvLoadCert ''/var/lib/incus'']"
    using noProvider by (simp add: world_defs block_defs)
  from h d n show ?thesis by simp
qed

text \<open>
  C6 as stated fails: with \<open>force\<close>, when the active certificate cannot be loaded, the
  call ends with that error and no issuance is attempted.
\<close>

theorem force_without_issuance_counterexample:
  "result (UpdateCertificate brokenEnv noBuffer exampleState ''HTTP-01'' exampleProvider False
             ''a.example.com'' ''admin@example.com'' '''' True)
     = Inl (Wrapped ''Failed to load certificate and key file''
              (OtherError ''open server.crt: input/output error''))
   \<and> trace (UpdateCertificate brokenEnv noBuffer exampleState ''HTTP-01'' exampleProvider False
             ''a.example.com'' ''admin@example.com'' '''' True)
     = [EvLoadCert ''/var/lib/incus'']"
  by (simp add: world_defs block_defs)

section \<open>A stale buffer\<close>

text \<open>
  C7, as the code has it. In a cluster, without \<open>force\<close>, when the buffered certificate
  can be read and parsed but needs an update for the domain, the removal of the buffer
  file is asked for right after the two reads and before the active certificate is
  loaded, whatever comes after; the answer of the removal changes neither the calls of
  the run nor its result. When the operating system removes the file, the run leaves the
  store without it: the file does not exist, and reading it finds nothing. When the
  operating system refuses, the run leaves the store as it was, with the file.
\<close>

theorem stale_buffer_removed:
  assumes "clustered" and "\<not> force"
    and "PathExists store (VarPath e ClusterCertFilename)"
    and "ReadFile store (VarPath e ClusterCertFilename) = Inr clusterCert"
    and "ReadFile store (VarPath e ''cluster.key'') = Inr key"
    and "X509KeyPair e clusterCert key = Inr keyPair"
    and "tlsCertificate keyPair = der # chain"
    and "ParseCertificate e der = Inr cert"
    and "certificateNeedsUpdate (NowBuffered e) domain cert"
  shows "(\<exists>after.
            trace (UpdateCertificate e store s challengeType provider clustered domain email caURL force)
              = EvReadFile (VarPath e ClusterCertFilename) # EvReadFile (VarPath e ''cluster.key'')
                # EvRemove (VarPath e ClusterCertFilename) # EvLoadCert (VarDir s) # after)
         \<and> (\<forall>answer.
               trace (UpdateCertificate (e\<lparr>osRemove := answer\<rparr>) store s challengeType provider
                        clustered domain email caURL force)
                 = trace (UpdateCertificate e store s challengeType provider clustered domain email caURL force)
               \<and> result (UpdateCertificate (e\<lparr>osRemove := answer\<rparr>) store s challengeType provider
                          clustered domain email caURL force)
                 = result (UpdateCertificate e store s challengeType provider clustered domain email caURL force))
         \<and> (osRemove e (VarPath e ClusterCertFilename) = None \<longrightarrow>
               files (UpdateCertificate e store s challengeType provider clustered domain email caURL force)
                 = store(VarPath e ClusterCertFilename := None)
               \<and> \<not> PathExists
                     (files (UpdateCertificate e store s challengeType provider clustered domain email caURL force))
                     (VarPath e ClusterCertFilename)
               \<and> ReadFile
                     (files (UpdateCertificate e store s challengeType provider clustered domain email caURL force))
                     (VarPath e ClusterCertFilename)
                   = Inl (OtherError ''no such file or directory''))
         \<and> (osRemove e (VarPath e ClusterCertFilename) \<noteq> None \<longrightarrow>
               files (UpdateCertificate e store s challengeType provider clustered domain email caURL force) = store
               \<and> PathExists
                     (files (UpdateCertificate e store s challengeType provider clustered domain email caURL force))
                     (VarPath e ClusterCertFilename))"
proof -
  let ?out = "UpdateCertificate e store s challengeType provider clustered domain email caURL force"
  let ?crt = "VarPath e ClusterCertFilename"
  have b: "bufferedCertificate e store clustered domain force =
             (Continue (), [EvReadFile ?crt, EvReadFile (VarPath e ''cluster.key'')])"
    using assms by (simp add: bufferedCertificate_def)
  from passed_buffer_block [OF assms(3) b, of s challengeType provider email caURL]
  have tr: "\<exists>after. trace ?out = EvReadFile ?crt # EvReadFile (VarPath e ''cluster.key'')
                                   # EvRemove ?crt # EvLoadCert (VarDir s) # after"
    and fl: "files ?out = fst (Remove e store ?crt)"
    by simp_all
  have gone: "files ?out = store(?crt := None) \<and> \<not> PathExists (files ?out) ?crt
              \<and> ReadFile (files ?out) ?crt = Inl (OtherError ''no such file or directory'')"
    if "osRemove e ?crt = None"
    using that assms(3) fl by (simp add: Remove_done PathExists_def ReadFile_def)
  have kept: "files ?out = store \<and> PathExists (files ?out) ?crt"
    if "osRemove e ?crt \<noteq> None"
    using that assms(3) fl by (simp add: Remove_refused)
  from tr gone kept
    osRemove_ignored
      [where e = e and store = store and s = s and challengeType = challengeType
         and provider = provider and clustered = clustered and domain = domain
         and email = email and caURL = caURL and force = force]
  show ?thesis by blast
qed

text \<open>
  The buffer holds the certificate \<open>stale\<close>: it is removed, and a new certificate is
  issued through DNS-01. In the world where no file can be removed, the same calls are
  made and the buffer is still there.
\<close>

theorem stale_buffer_removed_witness:
  "trace (UpdateCertificate exampleEnv staleBuffer exampleState ''DNS-01'' exampleProvider True
             ''a.example.com'' ''admin@example.com'' ''https://ca.example/dir'' False)
     = [EvReadFile ''/var/lib/incus/cluster.crt.new'',
        EvReadFile ''/var/lib/incus/cluster.key'',
        EvRemove ''/var/lib/incus/cluster.crt.new'',
        EvLoadCert ''/var/lib/incus'',
        EvMkdirTemp,
        EvRunCommandSplit [''PATH=/usr/bin'', ''TOKEN=1''] ''lego''
          [''--accept-tos'', ''--dns'', ''dummy'', ''--domains'', ''a.example.com'',
           ''--email'', ''admin@example.com'', ''--path'', ''/tmp/lego1'',
           ''--server'', ''https://ca.example/dir'', ''--dns.resolvers'', ''1.1.1.1:53'', ''run''],
        EvKeyPairAndCA ''/tmp/lego1/certificates'' ''a.example.com'',
        EvRemoveAll ''/tmp/lego1'']
   \<and> \<not> PathExists
         (files (UpdateCertificate exampleEnv staleBuffer exampleState ''DNS-01'' exampleProvider True
             ''a.example.com'' ''admin@example.com'' ''https://ca.example/dir'' False))
         ''/var/lib/incus/cluster.crt.new''
   \<and> PathExists
         (files (UpdateCertificate exampleEnv staleBuffer exampleState ''DNS-01'' exampleProvider True
             ''a.example.com'' ''admin@example.com'' ''https://ca.example/dir'' False))
         ''/var/lib/incus/cluster.key''
   \<and> trace (UpdateCertificate readOnlyEnv staleBuffer exampleState ''DNS-01'' exampleProvider True
             ''a.example.com'' ''admin@example.com'' ''https://ca.example/dir'' False)
     = trace (UpdateCertificate exampleEnv staleBuffer exampleState ''DNS-01'' exampleProvider True
             ''a.example.com'' ''admin@example.com'' ''https://ca.example/dir'' False)
   \<and> PathExists
         (files (UpdateCertificate readOnlyEnv staleBuffer exampleState ''DNS-01'' exampleProvider True
             ''a.example.com'' ''admin@example.com'' ''https://ca.example/dir'' False))
         ''/var/lib/incus/cluster.crt.new''"
proof -
  note removed =
    stale_buffer_removed
      [where e = exampleEnv and store = staleBuffer and clustered = True and force = False
         and clusterCert = "''stale''" and key = "''cluster-key''"
         and keyPair = "\<lparr>tlsCertificate = [''stale''], tlsPrivateKey = ''cluster-key''\<rparr>"
         and der = "''stale''" and chain = "[]"
         and cert = "\<lparr>DNSNames = [''a.example.com''], NotAfter = 10 * Day\<rparr>"
         and domain = "''a.example.com''" and s = exampleState
         and challengeType = "''DNS-01''" and provider = exampleProvider
         and email = "''admin@example.com''" and caURL = "''https://ca.example/dir''"]
  note refused =
    stale_buffer_removed
      [where e = readOnlyEnv and store = staleBuffer and clustered = True and force = False
         and clusterCert = "''stale''" and key = "''cluster-key''"
         and keyPair = "\<lparr>tlsCertificate = [''stale''], tlsPrivateKey = ''cluster-key''\<rparr>"
         and der = "''stale''" and chain = "[]"
         and cert = "\<lparr>DNSNames = [''a.example.com''], NotAfter = 10 * Day\<rparr>"
         and domain = "''a.example.com''" and s = exampleState
         and challengeType = "''DNS-01''" and provider = exampleProvider
         and email = "''admin@example.com''" and caURL = "''https://ca.example/dir''"]
  have a: "trace (UpdateCertificate exampleEnv staleBuffer exampleState ''DNS-01'' exampleProvider True
             ''a.example.com'' ''admin@example.com'' ''https://ca.example/dir'' False)
     = [EvReadFile ''/var/lib/incus/cluster.crt.new'',
        EvReadFile ''/var/lib/incus/cluster.key'',
        EvRemove ''/var/lib/incus/cluster.crt.new'',
        EvLoadCert ''/var/lib/incus'',
        EvMkdirTemp,
        EvRunCommandSplit [''PATH=/usr/bin'', ''TOKEN=1''] ''lego''
          [''--accept-tos'', ''--dns'', ''dummy'', ''--domains'', ''a.example.com'',
           ''--email'', ''admin@example.com'', ''--path'', ''/tmp/lego1'',
           ''--server'', ''https://ca.example/dir'', ''--dns.resolvers'', ''1.1.1.1:53'', ''run''],
        EvKeyPairAndCA ''/tmp/lego1/certificates'' ''a.example.com'',
        EvRemoveAll ''/tmp/lego1'']
   \<and> \<not> PathExists
         (files (UpdateCertificate exampleEnv staleBuffer exampleState ''DNS-01'' exampleProvider True
             ''a.example.com'' ''admin@example.com'' ''https://ca.example/dir'' False))
         ''/var/lib/incus/cluster.crt.new''
   \<and> PathExists
         (files (UpdateCertificate exampleEnv staleBuffer exampleState ''DNS-01'' exampleProvider True
             ''a.example.com'' ''admin@example.com'' ''https://ca.example/dir'' False))
         ''/var/lib/incus/cluster.key''"
    using removed by (simp add: world_defs block_defs)
  have b: "trace (UpdateCertificate readOnlyEnv staleBuffer exampleState ''DNS-01'' exampleProvider True
             ''a.example.com'' ''admin@example.com'' ''https://ca.example/dir'' False)
     = trace (UpdateCertificate exampleEnv staleBuffer exampleState ''DNS-01'' exampleProvider True
             ''a.example.com'' ''admin@example.com'' ''https://ca.example/dir'' False)
   \<and> PathExists
         (files (UpdateCertificate readOnlyEnv staleBuffer exampleState ''DNS-01'' exampleProvider True
             ''a.example.com'' ''admin@example.com'' ''https://ca.example/dir'' False))
         ''/var/lib/incus/cluster.crt.new''"
    using refused by (simp add: world_defs block_defs)
  from a b show ?thesis by simp
qed

text \<open>
  C7 as stated fails: the buffer is stale and the operating system refuses to remove the
  file. The error is dropped, the certificate is issued, and the buffer file is still
  there: a load of the buffer finds the stale certificate.
\<close>

theorem stale_buffer_kept_counterexample:
  "result (UpdateCertificate readOnlyEnv staleBuffer exampleState ''DNS-01'' exampleProvider True
             ''a.example.com'' ''admin@example.com'' ''https://ca.example/dir'' False)
     = Inr (Some \<lparr>Certificate = ''issued'', PrivateKey = ''server-key''\<rparr>)
   \<and> trace (UpdateCertificate readOnlyEnv staleBuffer exampleState ''DNS-01'' exampleProvider True
             ''a.example.com'' ''admin@example.com'' ''https://ca.example/dir'' False)
     = [EvReadFile ''/var/lib/incus/cluster.crt.new'',
        EvReadFile ''/var/lib/incus/cluster.key'',
        EvRemove ''/var/lib/incus/cluster.crt.new'',
        EvLoadCert ''/var/lib/incus'',
        EvMkdirTemp,
        EvRunCommandSplit [''PATH=/usr/bin'', ''TOKEN=1''] ''lego''
          [''--accept-tos'', ''--dns'', ''dummy'', ''--domains'', ''a.example.com'',
           ''--email'', ''admin@example.com'', ''--path'', ''/tmp/lego1'',
           ''--server'', ''https://ca.example/dir'', ''--dns.resolvers'', ''1.1.1.1:53'', ''run''],
        EvKeyPairAndCA ''/tmp/lego1/certificates'' ''a.example.com'',
        EvRemoveAll ''/tmp/lego1'']
   \<and> PathExists
         (files (UpdateCertificate readOnlyEnv staleBuffer exampleState ''DNS-01'' exampleProvider True
             ''a.example.com'' ''admin@example.com'' ''https://ca.example/dir'' False))
         ''/var/lib/incus/cluster.crt.new''
   \<and> ReadFile
         (files (UpdateCertificate readOnlyEnv staleBuffer exampleState ''DNS-01'' exampleProvider True
             ''a.example.com'' ''admin@example.com'' ''https://ca.example/dir'' False))
         ''/var/lib/incus/cluster.crt.new''
       = Inr ''stale''"
  by (simp add: world_defs block_defs)

section \<open>DNS-01 without a provider\<close>

text \<open>
  C8, as the code has it. With the challenge DNS-01 and an empty provider, no run makes
  a temporary directory, runs a command, or attempts a registration or an issuance: a
  run only reads the buffer, removes it, and loads the active certificate. When the run
  gets to the choice of the challenge (neither the block of the buffered certificate
  nor the block of the active certificate returns), the result is the configuration
  error, and the load of the active certificate is the last call of the run.
\<close>

theorem dns01_without_provider:
  assumes "challengeType = ''DNS-01''" and "fst (ACMEDNS s) = ''''"
  shows
    "set (trace (UpdateCertificate e store s challengeType provider clustered domain email caURL force))
       \<subseteq> {EvReadFile (VarPath e ClusterCertFilename), EvReadFile (VarPath e ''cluster.key''),
           EvRemove (VarPath e ClusterCertFilename), EvLoadCert (VarDir s)}
     \<and> ((\<forall>r. fst (bufferedCertificate e store clustered domain force) \<noteq> Return r)
        \<and> (\<forall>r. fst (activeCertificate e s domain force) \<noteq> Return r) \<longrightarrow>
          result (UpdateCertificate e store s challengeType provider clustered domain email caURL force)
            = Inl (Plain ''DNS-01 challenge type requires acme.dns.provider configuration key to be set'')
          \<and> (\<exists>before.
                trace (UpdateCertificate e store s challengeType provider clustered domain email caURL force)
                  = before @ [EvLoadCert (VarDir s)]))"
proof -
  have ev: "set (snd (bufferedCertificate e store clustered domain force))
         \<subseteq> {EvReadFile (VarPath e ClusterCertFilename), EvReadFile (VarPath e ''cluster.key'')}"
    by (rule bufferedCertificate_events)
  have rm: "set (snd (removeBuffer e store)) \<subseteq> {EvRemove (VarPath e ClusterCertFilename)}"
    by (simp add: removeBuffer_eq)
  note dns = issueDNS01_no_provider [OF assms(2), of e domain email caURL]
  show ?thesis
  proof (cases rule: UpdateCertificate_cases
          [of e store clustered domain force s challengeType provider email caURL])
    case (buffer r evs1)
    with ev show ?thesis by auto
  next
    case (active evs1 r)
    with ev rm show ?thesis by auto
  next
    case (dns01 evs1 certInfo)
    have "trace (UpdateCertificate e store s challengeType provider clustered domain email caURL force)
            = (evs1 @ snd (removeBuffer e store)) @ [EvLoadCert (VarDir s)]"
      using dns01(4) dns by simp
    with dns01 ev rm dns show ?thesis by auto
  next
    case (http01 evs1 certInfo)
    with assms(1) show ?thesis by simp
  qed
qed

text \<open>The active certificate is stale, so the run gets to the choice of the challenge.\<close>

theorem dns01_without_provider_witness:
  "UpdateCertificate exampleEnv noBuffer noProviderState ''DNS-01'' exampleProvider False
     ''a.example.com'' ''admin@example.com'' '''' False
     = \<lparr>result = Inl (Plain ''DNS-01 challenge type requires acme.dns.provider configuration key to be set''),
        trace = [EvLoadCert ''/var/lib/incus''],
        files = noBuffer\<rparr>"
  using dns01_without_provider
    [where e = exampleEnv and store = noBuffer and clustered = False and force = False
       and domain = "''a.example.com''" and s = noProviderState
       and challengeType = "''DNS-01''" and provider = exampleProvider
       and email = "''admin@example.com''" and caURL = "''''"]
  by (simp add: world_defs block_defs)

text \<open>
  C8 as stated fails: with DNS-01 and an empty provider, when the active certificate
  needs no update the call returns \<^verbatim>\<open>nil, nil\<close>, not the configuration error.
\<close>

theorem dns01_without_provider_counterexample:
  "UpdateCertificate freshEnv noBuffer noProviderState ''DNS-01'' exampleProvider False
     ''a.example.com'' ''admin@example.com'' '''' False
     = \<lparr>result = Inr None, trace = [EvLoadCert ''/var/lib/incus''], files = noBuffer\<rparr>"
  by (simp add: world_defs block_defs)

section \<open>The directory of the certificate authority\<close>

text \<open>
  C9. With an empty \<^verbatim>\<open>caURL\<close>, the DNS-01 path hands \<^verbatim>\<open>--server\<close> with an empty argument
  to the \<^verbatim>\<open>lego\<close> command, while the HTTP-01 path configures its client with the
  directory of Let's Encrypt.
\<close>

theorem dns01_server_argument_empty:
  "trace (UpdateCertificate exampleEnv noBuffer exampleState ''DNS-01'' exampleProvider False
            ''a.example.com'' ''admin@example.com'' '''' False)
     = [EvLoadCert ''/var/lib/incus'',
        EvMkdirTemp,
        EvRunCommandSplit [''PATH=/usr/bin'', ''TOKEN=1''] ''lego''
          [''--accept-tos'', ''--dns'', ''dummy'', ''--domains'', ''a.example.com'',
           ''--email'', ''admin@example.com'', ''--path'', ''/tmp/lego1'',
           ''--server'', '''', ''--dns.resolvers'', ''1.1.1.1:53'', ''run''],
        EvKeyPairAndCA ''/tmp/lego1/certificates'' ''a.example.com'',
        EvRemoveAll ''/tmp/lego1'']
   \<and> trace (UpdateCertificate exampleEnv noBuffer exampleState ''HTTP-01'' exampleProvider False
            ''a.example.com'' ''admin@example.com'' '''' False)
     = [EvLoadCert ''/var/lib/incus'',
        EvGenerateKey,
        EvNewClient
          \<lparr>User = \<lparr>Email = ''admin@example.com'', Key = ''account-key''\<rparr>,
           CADirURL = ''https://acme-v02.api.letsencrypt.org/directory'',
           CertificateKeyType = RSA2048\<rparr>,
        EvRegisterWithSolver,
        EvRegister (Inr ''account''),
        EvObtain \<lparr>Domains = [''a.example.com''], Bundle = True, RequestPrivateKey = ''server-key''\<rparr>
          (Inr exampleIssued)]"
  by (simp add: world_defs block_defs registerLoop.simps obtainLoop.simps)

section \<open>Removing the buffer\<close>

text \<open>
  C10, as the code has it. When the buffer file exists: with \<open>force\<close>, or outside a
  cluster, the buffer is not read, and the run starts with asking for the removal of the
  file, followed by the load of the active certificate; and in every run that does not
  return from the block of the buffered certificate (neither the buffered certificate nor
  an error of reading or checking it), the removal is asked for after the reads of the
  buffer and right before the load of the active certificate. In both cases, when the
  operating system removes the file, the run leaves the store without it; when the
  operating system refuses, the run goes on all the same and leaves the store as it was,
  with the file.
\<close>

theorem buffer_removed_before_load:
  assumes "PathExists store (VarPath e ClusterCertFilename)"
  shows
    "(force \<or> \<not> clustered \<longrightarrow>
        (\<exists>after.
           trace (UpdateCertificate e store s challengeType provider clustered domain email caURL force)
             = EvRemove (VarPath e ClusterCertFilename) # EvLoadCert (VarDir s) # after)
        \<and> (osRemove e (VarPath e ClusterCertFilename) = None \<longrightarrow>
              files (UpdateCertificate e store s challengeType provider clustered domain email caURL force)
                = store(VarPath e ClusterCertFilename := None)
              \<and> \<not> PathExists
                    (files (UpdateCertificate e store s challengeType provider clustered domain email caURL force))
                    (VarPath e ClusterCertFilename))
        \<and> (osRemove e (VarPath e ClusterCertFilename) \<noteq> None \<longrightarrow>
              files (UpdateCertificate e store s challengeType provider clustered domain email caURL force) = store
              \<and> PathExists
                    (files (UpdateCertificate e store s challengeType provider clustered domain email caURL force))
                    (VarPath e ClusterCertFilename)))
     \<and> ((\<forall>r. fst (bufferedCertificate e store clustered domain force) \<noteq> Return r) \<longrightarrow>
        (\<exists>before after.
           trace (UpdateCertificate e store s challengeType provider clustered domain email caURL force)
             = before @ EvRemove (VarPath e ClusterCertFilename) # EvLoadCert (VarDir s) # after
           \<and> set before \<subseteq> {EvReadFile (VarPath e ClusterCertFilename),
                              EvReadFile (VarPath e ''cluster.key'')})
        \<and> (osRemove e (VarPath e ClusterCertFilename) = None \<longrightarrow>
              files (UpdateCertificate e store s challengeType provider clustered domain email caURL force)
                = store(VarPath e ClusterCertFilename := None)
              \<and> \<not> PathExists
                    (files (UpdateCertificate e store s challengeType provider clustered domain email caURL force))
                    (VarPath e ClusterCertFilename))
        \<and> (osRemove e (VarPath e ClusterCertFilename) \<noteq> None \<longrightarrow>
              files (UpdateCertificate e store s challengeType provider clustered domain email caURL force) = store
              \<and> PathExists
                    (files (UpdateCertificate e store s challengeType provider clustered domain email caURL force))
                    (VarPath e ClusterCertFilename)))"
proof -
  let ?out = "UpdateCertificate e store s challengeType provider clustered domain email caURL force"
  let ?crt = "VarPath e ClusterCertFilename"
  have store:
    "(osRemove e ?crt = None \<longrightarrow>
        files ?out = store(?crt := None) \<and> \<not> PathExists (files ?out) ?crt)
     \<and> (osRemove e ?crt \<noteq> None \<longrightarrow> files ?out = store \<and> PathExists (files ?out) ?crt)"
    if "files ?out = fst (Remove e store ?crt)"
    using that assms by (simp add: Remove_done Remove_refused PathExists_def)
  have first: "(\<exists>after. trace ?out = EvRemove ?crt # EvLoadCert (VarDir s) # after)
                 \<and> files ?out = fst (Remove e store ?crt)"
    if "force \<or> \<not> clustered"
  proof -
    from that have "bufferedCertificate e store clustered domain force = (Continue (), [])"
      by (auto simp: bufferedCertificate_skipped)
    from passed_buffer_block [OF assms this] show ?thesis by simp
  qed
  have second: "(\<exists>before after.
                   trace ?out = before @ EvRemove ?crt # EvLoadCert (VarDir s) # after
                   \<and> set before \<subseteq> {EvReadFile ?crt, EvReadFile (VarPath e ''cluster.key'')})
                 \<and> files ?out = fst (Remove e store ?crt)"
    if "\<forall>r. fst (bufferedCertificate e store clustered domain force) \<noteq> Return r"
  proof -
    obtain fl evs1 where b: "bufferedCertificate e store clustered domain force = (fl, evs1)"
      by (cases "bufferedCertificate e store clustered domain force")
    with that have "fl = Continue ()" by (cases fl) auto
    with b have b': "bufferedCertificate e store clustered domain force = (Continue (), evs1)"
      by simp
    have "set evs1 \<subseteq> {EvReadFile ?crt, EvReadFile (VarPath e ''cluster.key'')}"
      using bufferedCertificate_events [of e store clustered domain force] b' by simp
    with passed_buffer_block [OF assms b'] show ?thesis by blast
  qed
  from first second store show ?thesis by blast
qed

text \<open>
  Outside a cluster a fresh buffer is removed unread; the active certificate is fresh
  too, so the run ends there. In the world where no file can be removed, the removal is
  asked for, the buffer stays, and the run goes on to issue a certificate.
\<close>

theorem buffer_removed_before_load_witness:
  "trace (UpdateCertificate freshEnv freshBuffer exampleState ''HTTP-01'' exampleProvider False
             ''a.example.com'' ''admin@example.com'' '''' False)
     = [EvRemove ''/var/lib/incus/cluster.crt.new'', EvLoadCert ''/var/lib/incus'']
   \<and> \<not> PathExists
         (files (UpdateCertificate freshEnv freshBuffer exampleState ''HTTP-01'' exampleProvider False
             ''a.example.com'' ''admin@example.com'' '''' False))
         ''/var/lib/incus/cluster.crt.new''
   \<and> PathExists freshBuffer ''/var/lib/incus/cluster.crt.new''
   \<and> trace (UpdateCertificate readOnlyEnv freshBuffer exampleState ''HTTP-01'' exampleProvider False
             ''a.example.com'' ''admin@example.com'' '''' False)
     = [EvRemove ''/var/lib/incus/cluster.crt.new'',
        EvLoadCert ''/var/lib/incus'',
        EvGenerateKey,
        EvNewClient (clientConfig ''admin@example.com'' ''account-key'' ''''),
        EvRegisterWithSolver,
        EvRegister (Inr ''account''),
        EvObtain exampleRequest (Inr exampleIssued)]
   \<and> PathExists
         (files (UpdateCertificate readOnlyEnv freshBuffer exampleState ''HTTP-01'' exampleProvider False
             ''a.example.com'' ''admin@example.com'' '''' False))
         ''/var/lib/incus/cluster.crt.new''"
proof -
  note removed =
    buffer_removed_before_load
      [where e = freshEnv and store = freshBuffer and clustered = False and force = False
         and domain = "''a.example.com''" and s = exampleState
         and challengeType = "''HTTP-01''" and provider = exampleProvider
         and email = "''admin@example.com''" and caURL = "''''"]
  note refused =
    buffer_removed_before_load
      [where e = readOnlyEnv and store = freshBuffer and clustered = False and force = False
         and domain = "''a.example.com''" and s = exampleState
         and challengeType = "''HTTP-01''" and provider = exampleProvider
         and email = "''admin@example.com''" and caURL = "''''"]
  have a: "trace (UpdateCertificate freshEnv freshBuffer exampleState ''HTTP-01'' exampleProvider False
             ''a.example.com'' ''admin@example.com'' '''' False)
     = [EvRemove ''/var/lib/incus/cluster.crt.new'', EvLoadCert ''/var/lib/incus'']
   \<and> \<not> PathExists
         (files (UpdateCertificate freshEnv freshBuffer exampleState ''HTTP-01'' exampleProvider False
             ''a.example.com'' ''admin@example.com'' '''' False))
         ''/var/lib/incus/cluster.crt.new''
   \<and> PathExists freshBuffer ''/var/lib/incus/cluster.crt.new''"
    using removed by (simp add: world_defs block_defs)
  have b: "trace (UpdateCertificate readOnlyEnv freshBuffer exampleState ''HTTP-01'' exampleProvider False
             ''a.example.com'' ''admin@example.com'' '''' False)
     = [EvRemove ''/var/lib/incus/cluster.crt.new'',
        EvLoadCert ''/var/lib/incus'',
        EvGenerateKey,
        EvNewClient (clientConfig ''admin@example.com'' ''account-key'' ''''),
        EvRegisterWithSolver,
        EvRegister (Inr ''account''),
        EvObtain exampleRequest (Inr exampleIssued)]
   \<and> PathExists
         (files (UpdateCertificate readOnlyEnv freshBuffer exampleState ''HTTP-01'' exampleProvider False
             ''a.example.com'' ''admin@example.com'' '''' False))
         ''/var/lib/incus/cluster.crt.new''"
    using refused by (simp add: world_defs block_defs registerLoop.simps obtainLoop.simps)
  from a b show ?thesis by simp
qed

text \<open>
  C10 as stated fails: this run does not return the buffered certificate (it returns an
  error), no removal is asked for, and the buffer file is still there.
\<close>

theorem buffer_kept_counterexample:
  "result (UpdateCertificate exampleEnv mismatchedBuffer exampleState ''HTTP-01'' exampleProvider
             True ''a.example.com'' ''admin@example.com'' '''' False)
     = Inl (Wrapped ''Failed to get keypair''
              (OtherError ''tls: private key does not match public key''))
   \<and> trace (UpdateCertificate exampleEnv mismatchedBuffer exampleState ''HTTP-01'' exampleProvider
             True ''a.example.com'' ''admin@example.com'' '''' False)
     = [EvReadFile ''/var/lib/incus/cluster.crt.new'', EvReadFile ''/var/lib/incus/cluster.key'']
   \<and> PathExists
         (files (UpdateCertificate exampleEnv mismatchedBuffer exampleState ''HTTP-01''
                   exampleProvider True ''a.example.com'' ''admin@example.com'' '''' False))
         ''/var/lib/incus/cluster.crt.new''"
  by (simp add: world_defs block_defs)

end
